theory Spec2Isabelle
  imports Complex_Main "HOL-Library.Multiset"
begin

section \<open>The product catalogue of \<open>main.py\<close>\<close>

text \<open>
  A shallow embedding of the request handlers of \<open>src/main.py\<close>: the \<open>products\<close>
  table is a list of rows in insertion order, the files of the working directory are
  a map from paths to contents, and every handler is a function from the state
  before the call to its outcome and the state after it. An exception of the source
  is an \<open>Inl\<close> outcome; the state returned with it holds whatever the handler had
  already written when it raised. The handlers are the Python functions: what the
  framework does with a value they return is not part of them.
\<close>

subsection \<open>Python values\<close>

text \<open>
  A Python float: a number, an infinity, or NaN. No handler computes with one; what
  matters is that SQLite stores NaN as \<open>NULL\<close>.
\<close>

datatype pyfloat = Finite real | PosInf | NegInf | NaN

text \<open>
  The values \<open>json.loads\<close> returns and \<open>json.dumps\<close> takes. A \<open>dict\<close> is its list of
  items in insertion order.
\<close>

datatype json =
    JNull
  | JBool bool
  | JInt int
  | JFloat pyfloat
  | JStr string
  | JList "json list"
  | JDict "(string \<times> json) list"

text \<open>
  The exceptions a handler can leave with. \<open>Unauthorized\<close> and \<open>NotFound\<close> are the
  \<open>HTTPException\<close>s with status 401 and 404; \<open>RequestValidationError\<close> is the 422
  answer to a request that misses a parameter declared with \<open>Form(...)\<close> or
  \<open>File(...)\<close>; the others are uncaught and surface as status 500. \<open>OSError\<close> stands
  for whatever \<open>open\<close> raises on a path it cannot open (\<open>FileNotFoundError\<close> and
  other subclasses, \<open>ValueError\<close> for a path with a NUL character).
  \<open>IntegrityError\<close> and \<open>OperationalError\<close> are those of \<open>sqlite3\<close>; \<open>ValueError\<close>
  is raised when the value a read returns is rendered.
\<close>

datatype error =
    Unauthorized
  | NotFound
  | RequestValidationError
  | JSONDecodeError
  | AttributeError
  | TypeError
  | ValueError
  | OSError
  | IntegrityError
  | OperationalError

text \<open>
  The module \<open>json\<close> is a library, not code of this repository: the handlers take
  it as a parameter. \<open>loads\<close> returns \<open>None\<close> where \<open>json.loads\<close> raises, and
  \<open>JSONDecodeError\<close> stands for what it raises: \<open>JSONDecodeError\<close> on a text that is
  no JSON, and the errors of the interpreter on a text nested deeper than its
  recursion limit or with a number of more digits than it converts.
\<close>

record json_module =
  loads :: "string \<Rightarrow> json option"
  dumps :: "json \<Rightarrow> string"

subsection \<open>Strings\<close>

text \<open>The truth value of an \<open>Optional[str]\<close>: \<open>None\<close> and \<open>""\<close> are false.\<close>

definition truthy :: "string option \<Rightarrow> bool" where
  "truthy v = (case v of None \<Rightarrow> False | Some t \<Rightarrow> t \<noteq> [])"

text \<open>\<open>str.split(c)\<close> for a separator of one character.\<close>

fun split_on :: "char \<Rightarrow> string \<Rightarrow> string list" where
  "split_on c [] = [[]]"
| "split_on c (x # xs) =
     (if x = c then [] # split_on c xs
      else (case split_on c xs of [] \<Rightarrow> [[x]] | w # ws \<Rightarrow> (x # w) # ws))"

text \<open>\<open>image.filename.split('.')[-1]\<close>\<close>

definition ext_of :: "string \<Rightarrow> string" where
  "ext_of filename = last (split_on CHR ''.'' filename)"

text \<open>\<open>str(n)\<close> for a natural number: its decimal digits.\<close>

definition digit_char :: "nat \<Rightarrow> char" where
  "digit_char d = char_of (48 + d)"

fun str_nat :: "nat \<Rightarrow> string" where
  "str_nat n = (if n < 10 then [digit_char n] else str_nat (n div 10) @ [digit_char (n mod 10)])"

declare str_nat.simps [simp del]

text \<open>The decimal digits, and the number a string of digits denotes.\<close>

definition is_digit :: "char \<Rightarrow> bool" where
  "is_digit c = (48 \<le> (of_char c :: nat) \<and> (of_char c :: nat) \<le> 57)"

definition digits_val :: "string \<Rightarrow> nat" where
  "digits_val ds = foldl (\<lambda>acc c. 10 * acc + ((of_char c :: nat) - 48)) 0 ds"

text \<open>The format \<open>{n:04d}\<close>: the decimal digits, filled with zeros on the left up to width 4.\<close>

definition format_04d :: "nat \<Rightarrow> string" where
  "format_04d n = (let d = str_nat n in replicate (4 - length d) CHR ''0'' @ d)"

text \<open>\<open>path.lstrip('/')\<close>\<close>

definition lstrip_slash :: "string \<Rightarrow> string" where
  "lstrip_slash path = dropWhile (\<lambda>c. c = CHR ''/'') path"

subsection \<open>The table, the upload directory and the state\<close>

text \<open>
  A row of \<open>products\<close>. The columns declared without \<open>NOT NULL\<close> are optional;
  \<open>created_at\<close> is the reading of the database clock at the insertion.
\<close>

record row =
  row_id :: nat
  row_product_id :: string
  row_name :: string
  row_type :: string
  row_category :: "string option"
  row_details :: "string option"
  row_price :: pyfloat
  row_sizes :: "string option"
  row_colors :: "string option"
  row_images :: "string option"
  row_created_at :: nat

text \<open>
  \<open>rows\<close> is the table in insertion order, \<open>seq\<close> the last key that
  \<open>AUTOINCREMENT\<close> gave out, \<open>files\<close> the files of the working directory by path,
  the database file among them. \<open>writable path\<close> says that \<open>open(path, "wb")\<close>
  succeeds: the directory of the path exists and the file system accepts the name.
  No handler changes it.
\<close>

record state =
  rows :: "row list"
  seq :: nat
  files :: "string \<rightharpoonup> string"
  writable :: "string \<Rightarrow> bool"

text \<open>\<open>DATABASE_PATH\<close>, the file of the table.\<close>

definition DATABASE_PATH :: string where
  "DATABASE_PATH = ''data/rimu_world.db''"

text \<open>An \<open>UploadFile\<close>: the name the client gave the part, and its bytes.\<close>

record upload =
  filename :: "string option"
  content :: string

text \<open>The form fields that create and update share.\<close>

record fields =
  name :: string
  type :: string
  category :: string
  details :: string
  price :: pyfloat
  sizes :: string
  colors :: string

text \<open>The dictionary a read returns: the row, with the three array columns decoded.\<close>

record product =
  p_id :: nat
  p_product_id :: string
  p_name :: string
  p_type :: string
  p_category :: "string option"
  p_details :: "string option"
  p_price :: pyfloat
  p_sizes :: json
  p_colors :: json
  p_images :: json
  p_created_at :: nat

text \<open>The dictionary create and update answer with.\<close>

record reply =
  message :: string
  product_id :: string

subsection \<open>Identifiers\<close>

text \<open>\<open>generate_product_id\<close>: \<open>SELECT COUNT(*)\<close> is the number of rows.\<close>

definition generate_product_id :: "state \<Rightarrow> string" where
  "generate_product_id s = (let count = length (rows s) in ''RW'' @ format_04d (count + 1))"

text \<open>\<open>SELECT ... WHERE product_id = ?\<close> followed by \<open>fetchone()\<close>.\<close>

definition select_one :: "string \<Rightarrow> state \<Rightarrow> row option" where
  "select_one pid s = find (\<lambda>r. row_product_id r = pid) (rows s)"

subsection \<open>Create\<close>

text \<open>
  The loop of \<open>create_product\<close> over \<open>enumerate(images)\<close>: \<open>idx\<close> is the position of
  the file in the batch, \<open>fs\<close> the files written so far, \<open>image_paths\<close> the public
  paths collected so far, \<open>w\<close> the paths that can be opened for writing. A path that
  cannot be opened ends the loop with the exception of \<open>open\<close>; the files written
  before it stay.
\<close>

fun save_images ::
  "(string \<Rightarrow> bool) \<Rightarrow> string \<Rightarrow> nat \<Rightarrow> upload list \<Rightarrow> (string \<rightharpoonup> string) \<Rightarrow> string list
     \<Rightarrow> (error + string list) \<times> (string \<rightharpoonup> string)" where
  "save_images w pid idx [] fs image_paths = (Inr image_paths, fs)"
| "save_images w pid idx (img # images) fs image_paths =
     (case filename img of
        None \<Rightarrow> save_images w pid (Suc idx) images fs image_paths
      | Some fname \<Rightarrow>
          if fname = [] then save_images w pid (Suc idx) images fs image_paths
          else
            let ext = ext_of fname;
                file_name = pid @ ''_'' @ str_nat idx @ ''.'' @ ext;
                filepath = ''static/uploads/'' @ file_name
            in if \<not> w filepath then (Inl OSError, fs)
               else save_images w pid (Suc idx) images (fs(filepath \<mapsto> content img))
                      (image_paths @ [''/static/uploads/'' @ file_name]))"

text \<open>
  \<open>create_product\<close>, for the parameters the framework has bound. \<open>now\<close> is what
  \<open>CURRENT_TIMESTAMP\<close> reads at the insertion. The files are written before the
  \<open>INSERT\<close>, which fails on the \<open>UNIQUE\<close> constraint of \<open>product_id\<close> and on the
  \<open>NOT NULL\<close> constraint of \<open>price\<close>, since a NaN is bound as \<open>NULL\<close>.
\<close>

definition create_product ::
  "json_module \<Rightarrow> nat \<Rightarrow> fields \<Rightarrow> upload list \<Rightarrow> state \<Rightarrow> (error + reply) \<times> state" where
  "create_product json now form images s =
     (let pid = generate_product_id s;
          (saved, fs) = save_images (writable s) pid 0 images (files s) [];
          s1 = s\<lparr>files := fs\<rparr>
      in case saved of
           Inl e \<Rightarrow> (Inl e, s1)
         | Inr image_paths \<Rightarrow>
             let new_row = \<lparr>row_id = Suc (seq s), row_product_id = pid, row_name = name form,
                        row_type = type form, row_category = Some (category form),
                        row_details = Some (details form), row_price = price form,
                        row_sizes = Some (sizes form), row_colors = Some (colors form),
                        row_images = Some (dumps json (JList (map JStr image_paths))),
                        row_created_at = now\<rparr>
             in if price form = NaN \<or> pid \<in> row_product_id ` set (rows s)
                then (Inl IntegrityError, s1)
                else (Inr \<lparr>message = ''Product created successfully'', product_id = pid\<rparr>,
                      s1\<lparr>rows := rows s @ [new_row], seq := Suc (seq s)\<rparr>))"

subsection \<open>Update\<close>

text \<open>\<open>existing_image_list.copy()\<close>: lists and dicts have the method, no other value has.\<close>

definition py_copy :: "json \<Rightarrow> json option" where
  "py_copy v = (case v of JList xs \<Rightarrow> Some (JList xs) | JDict kvs \<Rightarrow> Some (JDict kvs) | _ \<Rightarrow> None)"

text \<open>
  The loop of \<open>update_product\<close>. The index of a file is \<open>len(image_paths) + idx\<close>,
  read when the file is reached, and \<open>image_paths\<close> has grown by then. On a dict,
  \<open>len\<close> works and the file is written before \<open>append\<close> raises.
\<close>

fun save_new_images ::
  "(string \<Rightarrow> bool) \<Rightarrow> string \<Rightarrow> nat \<Rightarrow> upload list \<Rightarrow> (string \<rightharpoonup> string) \<Rightarrow> json
     \<Rightarrow> (error + json) \<times> (string \<rightharpoonup> string)" where
  "save_new_images w pid idx [] fs image_paths = (Inr image_paths, fs)"
| "save_new_images w pid idx (img # images) fs image_paths =
     (case filename img of
        None \<Rightarrow> save_new_images w pid (Suc idx) images fs image_paths
      | Some fname \<Rightarrow>
          if fname = [] then save_new_images w pid (Suc idx) images fs image_paths
          else
            (case image_paths of
               JList xs \<Rightarrow>
                 let ext = ext_of fname;
                     file_name = pid @ ''_'' @ str_nat (length xs + idx) @ ''.'' @ ext;
                     filepath = ''static/uploads/'' @ file_name
                 in if \<not> w filepath then (Inl OSError, fs)
                    else save_new_images w pid (Suc idx) images (fs(filepath \<mapsto> content img))
                           (JList (xs @ [JStr (''/static/uploads/'' @ file_name)]))
             | JDict kvs \<Rightarrow>
                 let ext = ext_of fname;
                     file_name = pid @ ''_'' @ str_nat (length kvs + idx) @ ''.'' @ ext;
                     filepath = ''static/uploads/'' @ file_name
                 in if \<not> w filepath then (Inl OSError, fs)
                    else (Inl AttributeError, fs(filepath \<mapsto> content img))
             | _ \<Rightarrow> (Inl TypeError, fs)))"

text \<open>The guard \<open>images and images[0].filename\<close>.\<close>

definition has_upload :: "upload list option \<Rightarrow> bool" where
  "has_upload images =
     (case images of None \<Rightarrow> False | Some [] \<Rightarrow> False | Some (img # _) \<Rightarrow> truthy (filename img))"

text \<open>
  The \<open>UPDATE ... WHERE product_id = ?\<close> of \<open>update_product\<close>: \<open>set_columns\<close> is
  its \<open>SET\<close> clause on one row. The statement fails on the \<open>NOT NULL\<close> constraint
  of \<open>price\<close> when the price is NaN; the new files are written by then.
\<close>

definition set_columns :: "fields \<Rightarrow> string \<Rightarrow> row \<Rightarrow> row" where
  "set_columns form images_text r =
     r\<lparr>row_name := name form, row_type := type form,
       row_category := Some (category form), row_details := Some (details form),
       row_price := price form, row_sizes := Some (sizes form),
       row_colors := Some (colors form), row_images := Some images_text\<rparr>"

definition update_rows :: "string \<Rightarrow> fields \<Rightarrow> string \<Rightarrow> row list \<Rightarrow> row list" where
  "update_rows pid form images_text rs =
     map (\<lambda>r. if row_product_id r = pid then set_columns form images_text r else r) rs"

definition update_product ::
  "json_module \<Rightarrow> string \<Rightarrow> fields \<Rightarrow> upload list option \<Rightarrow> string \<Rightarrow> state
     \<Rightarrow> (error + reply) \<times> state" where
  "update_product json pid form images existing_images s =
     (case select_one pid s of
        None \<Rightarrow> (Inl NotFound, s)
      | Some row \<Rightarrow>
          (case loads json existing_images of
             None \<Rightarrow> (Inl JSONDecodeError, s)
           | Some existing_image_list \<Rightarrow>
               (case py_copy existing_image_list of
                  None \<Rightarrow> (Inl AttributeError, s)
                | Some image_paths0 \<Rightarrow>
                    let (saved, fs) =
                          (if has_upload images
                           then save_new_images (writable s) pid 0
                                  (case images of None \<Rightarrow> [] | Some l \<Rightarrow> l)
                                  (files s) image_paths0
                           else (Inr image_paths0, files s));
                        s1 = s\<lparr>files := fs\<rparr>
                    in (case saved of
                          Inl e \<Rightarrow> (Inl e, s1)
                        | Inr image_paths \<Rightarrow>
                            if price form = NaN then (Inl IntegrityError, s1)
                            else
                              (Inr \<lparr>message = ''Product updated successfully'', product_id = pid\<rparr>,
                               s1\<lparr>rows := update_rows pid form (dumps json image_paths) (rows s)\<rparr>)))))"

subsection \<open>Delete\<close>

text \<open>
  \<open>os.remove\<close>: it removes a file that is there and raises (\<open>None\<close>) on a path that
  names no file. Paths are compared as they are written.
\<close>

definition os_remove :: "(string \<rightharpoonup> string) \<Rightarrow> string \<Rightarrow> (string \<rightharpoonup> string) option" where
  "os_remove fs path = (case fs path of None \<Rightarrow> None | Some _ \<Rightarrow> Some (fs(path := None)))"

text \<open>
  The body of the loop of \<open>delete_product\<close>, with its \<open>try\<close> and bare \<open>except\<close>: a
  value that is no string has no \<open>lstrip\<close>, and that exception is swallowed like the
  one of \<open>os.remove\<close>.
\<close>

definition try_remove :: "(string \<rightharpoonup> string) \<Rightarrow> json \<Rightarrow> (string \<rightharpoonup> string)" where
  "try_remove fs image_path =
     (case image_path of
        JStr p \<Rightarrow> (case os_remove fs (lstrip_slash p) of None \<Rightarrow> fs | Some fs' \<Rightarrow> fs')
      | _ \<Rightarrow> fs)"

text \<open>
  What \<open>for image_path in images\<close> runs through: the elements of a list, the keys
  of a dict, the characters of a string; the other values are not iterable.
\<close>

definition py_iter :: "json \<Rightarrow> json list option" where
  "py_iter v =
     (case v of
        JList xs \<Rightarrow> Some xs
      | JDict kvs \<Rightarrow> Some (map (\<lambda>kv. JStr (fst kv)) kvs)
      | JStr t \<Rightarrow> Some (map (\<lambda>c. JStr [c]) t)
      | _ \<Rightarrow> None)"

text \<open>
  \<open>delete_product\<close>. The rows are read, the files removed, then the \<open>DELETE\<close> runs
  on the same connection. SQLite refuses to write to a database whose file has been
  unlinked since the connection opened it: when the loop has removed the file at
  \<open>DATABASE_PATH\<close>, the \<open>DELETE\<close> raises and the row stays.
\<close>

definition delete_product :: "json_module \<Rightarrow> string \<Rightarrow> state \<Rightarrow> (error + string) \<times> state" where
  "delete_product json pid s =
     (let removed =
            (case select_one pid s of
               None \<Rightarrow> Inr (files s)
             | Some row \<Rightarrow>
                 (case row_images row of
                    None \<Rightarrow> Inl TypeError
                  | Some images_text \<Rightarrow>
                      (case loads json images_text of
                         None \<Rightarrow> Inl JSONDecodeError
                       | Some images \<Rightarrow>
                           (case py_iter images of
                              None \<Rightarrow> Inl TypeError
                            | Some image_paths \<Rightarrow> Inr (foldl try_remove (files s) image_paths)))))
      in case removed of
           Inl e \<Rightarrow> (Inl e, s)
         | Inr fs \<Rightarrow>
             if files s DATABASE_PATH \<noteq> None \<and> fs DATABASE_PATH = None
             then (Inl OperationalError, s\<lparr>files := fs\<rparr>)
             else
               (Inr ''Product deleted successfully'',
                s\<lparr>files := fs, rows := filter (\<lambda>r. row_product_id r \<noteq> pid) (rows s)\<rparr>))"

subsection \<open>Reads\<close>

text \<open>\<open>json.loads(product[k]) if product[k] else []\<close>\<close>

definition decode_column :: "json_module \<Rightarrow> string option \<Rightarrow> error + json" where
  "decode_column json v =
     (case v of
        None \<Rightarrow> Inr (JList [])
      | Some t \<Rightarrow>
          if t = [] then Inr (JList [])
          else (case loads json t of None \<Rightarrow> Inl JSONDecodeError | Some a \<Rightarrow> Inr a))"

text \<open>\<open>dict(row)\<close> with \<open>sizes\<close>, \<open>colors\<close> and \<open>images\<close> decoded, in that order.\<close>

definition to_product :: "json_module \<Rightarrow> row \<Rightarrow> error + product" where
  "to_product json r =
     (case decode_column json (row_sizes r) of
        Inl e \<Rightarrow> Inl e
      | Inr ss \<Rightarrow>
          (case decode_column json (row_colors r) of
             Inl e \<Rightarrow> Inl e
           | Inr cs \<Rightarrow>
               (case decode_column json (row_images r) of
                  Inl e \<Rightarrow> Inl e
                | Inr is \<Rightarrow>
                    Inr \<lparr>p_id = row_id r, p_product_id = row_product_id r, p_name = row_name r,
                         p_type = row_type r, p_category = row_category r,
                         p_details = row_details r, p_price = row_price r, p_sizes = ss,
                         p_colors = cs, p_images = is, p_created_at = row_created_at r\<rparr>)))"

definition get_product :: "json_module \<Rightarrow> string \<Rightarrow> state \<Rightarrow> error + product" where
  "get_product json pid s =
     (case select_one pid s of
        None \<Rightarrow> Inl NotFound
      | Some row \<Rightarrow> to_product json row)"

text \<open>
  \<open>ORDER BY created_at DESC\<close>. SQL leaves the order of rows with equal
  \<open>created_at\<close> open; this insertion sort is one such order, and what is proved of
  a listing below holds for every order that is sorted.
\<close>

fun insert_desc :: "row \<Rightarrow> row list \<Rightarrow> row list" where
  "insert_desc r [] = [r]"
| "insert_desc r (x # xs) =
     (if row_created_at x \<le> row_created_at r then r # x # xs else x # insert_desc r xs)"

definition order_by_created_at_desc :: "row list \<Rightarrow> row list" where
  "order_by_created_at_desc rs = foldr insert_desc rs []"

text \<open>The loop over \<open>c.fetchall()\<close>: the first row that does not decode ends the call.\<close>

fun to_products :: "json_module \<Rightarrow> row list \<Rightarrow> error + product list" where
  "to_products json [] = Inr []"
| "to_products json (r # rs) =
     (case to_product json r of
        Inl e \<Rightarrow> Inl e
      | Inr p \<Rightarrow> (case to_products json rs of Inl e \<Rightarrow> Inl e | Inr ps \<Rightarrow> Inr (p # ps)))"

text \<open>\<open>get_products\<close>: the filter is applied \<open>if type:\<close>, that is, for a non-empty string.\<close>

definition get_products :: "json_module \<Rightarrow> string option \<Rightarrow> state \<Rightarrow> error + product list" where
  "get_products json type_param s =
     (let selected =
            (case type_param of
               None \<Rightarrow> order_by_created_at_desc (rows s)
             | Some t \<Rightarrow>
                 if t = [] then order_by_created_at_desc (rows s)
                 else order_by_created_at_desc (filter (\<lambda>r. row_type r = t) (rows s)))
      in to_products json selected)"

subsection \<open>The routes of the reads\<close>

text \<open>
  The framework renders what a handler returns with \<open>json.dumps\<close> and
  \<open>allow_nan=False\<close>, which raises \<open>ValueError\<close> on a float that is NaN or an
  infinity, in the price or inside a decoded column. The routes of the reads are
  the handlers followed by that rendering. Every string of the model is one that
  UTF-8 encodes.
\<close>

definition is_finite :: "pyfloat \<Rightarrow> bool" where
  "is_finite x = (case x of Finite _ \<Rightarrow> True | _ \<Rightarrow> False)"

fun json_compliant :: "json \<Rightarrow> bool" where
  "json_compliant (JFloat x) = is_finite x"
| "json_compliant (JList xs) = (\<forall>v\<in>set xs. json_compliant v)"
| "json_compliant (JDict kvs) = (\<forall>v\<in>snd ` set kvs. json_compliant v)"
| "json_compliant _ = True"

definition compliant :: "product \<Rightarrow> bool" where
  "compliant p =
     (is_finite (p_price p) \<and> json_compliant (p_sizes p) \<and> json_compliant (p_colors p) \<and>
      json_compliant (p_images p))"

definition get_api_product :: "json_module \<Rightarrow> string \<Rightarrow> state \<Rightarrow> error + product" where
  "get_api_product json pid s =
     (case get_product json pid s of
        Inl e \<Rightarrow> Inl e
      | Inr p \<Rightarrow> if compliant p then Inr p else Inl ValueError)"

definition get_api_products :: "json_module \<Rightarrow> string option \<Rightarrow> state \<Rightarrow> error + product list" where
  "get_api_products json type_param s =
     (case get_products json type_param s of
        Inl e \<Rightarrow> Inl e
      | Inr ps \<Rightarrow> if list_all compliant ps then Inr ps else Inl ValueError)"

subsection \<open>The route of create\<close>

text \<open>
  What the declaration of \<open>create_product\<close> makes of a request before the body
  runs. The credentials are \<open>None\<close> when the request has no usable
  \<open>Authorization\<close> header, which \<open>HTTPBasic\<close> answers with 401.
  \<open>secrets.compare_digest\<close> compares two strings and raises \<open>TypeError\<close> when one
  of them has a character outside ASCII.
\<close>

record settings =
  ADMIN_USERNAME :: string
  ADMIN_PASSWORD :: string

record credentials =
  username :: string
  password :: string

definition is_ascii :: "string \<Rightarrow> bool" where
  "is_ascii t = list_all (\<lambda>c. (of_char c :: nat) < 128) t"

definition compare_digest :: "string \<Rightarrow> string \<Rightarrow> bool option" where
  "compare_digest a b = (if is_ascii a \<and> is_ascii b then Some (a = b) else None)"

definition verify_admin :: "settings \<Rightarrow> credentials \<Rightarrow> error + string" where
  "verify_admin cfg creds =
     (case compare_digest (username creds) (ADMIN_USERNAME cfg) of
        None \<Rightarrow> Inl TypeError
      | Some correct_username \<Rightarrow>
          (case compare_digest (password creds) (ADMIN_PASSWORD cfg) of
             None \<Rightarrow> Inl TypeError
           | Some correct_password \<Rightarrow>
               if \<not> (correct_username \<and> correct_password) then Inl Unauthorized
               else Inr (username creds)))"

text \<open>
  The form of a request. A field is \<open>None\<close> when the request does not carry it; for
  \<open>price\<close>, also when its text is no float. \<open>form_images\<close> lists the file parts
  named \<open>images\<close>. For a parameter declared with \<open>Form\<close> the framework takes an empty
  text for a missing one (\<open>form_text\<close>). A parameter declared with \<open>Form(...)\<close> or
  \<open>File(...)\<close> is required: without it the request is answered with a validation
  error and the body does not run. \<open>sizes\<close> and \<open>colors\<close> are declared with the
  default \<open>"[]"\<close>.
\<close>

record create_form =
  form_name :: "string option"
  form_type :: "string option"
  form_category :: "string option"
  form_details :: "string option"
  form_price :: "pyfloat option"
  form_sizes :: "string option"
  form_colors :: "string option"
  form_images :: "upload list"

definition form_text :: "string option \<Rightarrow> string option" where
  "form_text v = (case v of None \<Rightarrow> None | Some t \<Rightarrow> if t = [] then None else Some t)"

definition with_default :: "string \<Rightarrow> string option \<Rightarrow> string" where
  "with_default d v = (case form_text v of None \<Rightarrow> d | Some t \<Rightarrow> t)"

definition bind_create :: "create_form \<Rightarrow> (fields \<times> upload list) option" where
  "bind_create f =
     (case (form_text (form_name f), form_text (form_type f), form_text (form_category f),
            form_text (form_details f), form_price f) of
        (Some n, Some t, Some c, Some d, Some p) \<Rightarrow>
          if form_images f = [] then None
          else Some (\<lparr>name = n, type = t, category = c, details = d, price = p,
                      sizes = with_default ''[]'' (form_sizes f),
                      colors = with_default ''[]'' (form_colors f)\<rparr>,
                     form_images f)
      | _ \<Rightarrow> None)"

definition post_api_admin_products ::
  "settings \<Rightarrow> json_module \<Rightarrow> nat \<Rightarrow> credentials option \<Rightarrow> create_form \<Rightarrow> state
     \<Rightarrow> (error + reply) \<times> state" where
  "post_api_admin_products cfg json now credentials f s =
     (case credentials of
        None \<Rightarrow> (Inl Unauthorized, s)
      | Some creds \<Rightarrow>
          (case verify_admin cfg creds of
             Inl e \<Rightarrow> (Inl e, s)
           | Inr admin \<Rightarrow>
               (case bind_create f of
                  None \<Rightarrow> (Inl RequestValidationError, s)
                | Some (form, images) \<Rightarrow> create_product json now form images s)))"

subsection \<open>A JSON codec\<close>

text \<open>
  An instance of the module, to run the handlers on concrete requests. It follows
  \<open>json.dumps\<close> with its default separators and \<open>ensure_ascii\<close>, and \<open>json.loads\<close> on
  documents without floats: it rejects a number with a fraction or an exponent and
  the literals \<open>NaN\<close> and \<open>Infinity\<close>, and so never returns a float. It writes a
  finite float as its integer part followed by \<open>.0\<close>, which is what Python writes
  for an integral float of up to sixteen digits. A character stands for the code
  point of its number. The theorems about the handlers hold for every module, this
  one among them.
\<close>

definition str_int :: "int \<Rightarrow> string" where
  "str_int i = (if i < 0 then CHR ''-'' # str_nat (nat (- i)) else str_nat (nat i))"

definition dumps_float :: "pyfloat \<Rightarrow> string" where
  "dumps_float x =
     (case x of
        Finite r \<Rightarrow> str_int \<lfloor>r\<rfloor> @ ''.0''
      | PosInf \<Rightarrow> ''Infinity''
      | NegInf \<Rightarrow> ''-Infinity''
      | NaN \<Rightarrow> ''NaN'')"

definition hex_char :: "nat \<Rightarrow> char" where
  "hex_char d = (if d < 10 then char_of (48 + d) else char_of (87 + d))"

definition escape_char :: "char \<Rightarrow> string" where
  "escape_char c =
     (if c = CHR 0x22 then [CHR 0x5C, CHR 0x22]
      else if c = CHR 0x5C then [CHR 0x5C, CHR 0x5C]
      else if c = CHR 0x0A then [CHR 0x5C, CHR ''n'']
      else if c = CHR 0x0D then [CHR 0x5C, CHR ''r'']
      else if c = CHR 0x09 then [CHR 0x5C, CHR ''t'']
      else if c = CHR 0x08 then [CHR 0x5C, CHR ''b'']
      else if c = CHR 0x0C then [CHR 0x5C, CHR ''f'']
      else if (of_char c :: nat) < 32 \<or> 126 < (of_char c :: nat)
        then [CHR 0x5C, CHR ''u'', CHR ''0'', CHR ''0'',
              hex_char ((of_char c :: nat) div 16), hex_char ((of_char c :: nat) mod 16)]
      else [c])"

definition dumps_str :: "string \<Rightarrow> string" where
  "dumps_str t = CHR 0x22 # concat (map escape_char t) @ [CHR 0x22]"

fun json_dumps :: "json \<Rightarrow> string"
  and dumps_items :: "json list \<Rightarrow> string"
  and dumps_pairs :: "(string \<times> json) list \<Rightarrow> string" where
  "json_dumps JNull = ''null''"
| "json_dumps (JBool b) = (if b then ''true'' else ''false'')"
| "json_dumps (JInt i) = str_int i"
| "json_dumps (JFloat x) = dumps_float x"
| "json_dumps (JStr t) = dumps_str t"
| "json_dumps (JList xs) = ''['' @ dumps_items xs @ '']''"
| "json_dumps (JDict kvs) = ''{'' @ dumps_pairs kvs @ ''}''"
| "dumps_items [] = []"
| "dumps_items [x] = json_dumps x"
| "dumps_items (x # y # ys) = json_dumps x @ '', '' @ dumps_items (y # ys)"
| "dumps_pairs [] = []"
| "dumps_pairs [(k, v)] = dumps_str k @ '': '' @ json_dumps v"
| "dumps_pairs ((k, v) # kv # kvs) = dumps_str k @ '': '' @ json_dumps v @ '', '' @ dumps_pairs (kv # kvs)"

definition is_ws :: "char \<Rightarrow> bool" where
  "is_ws c = (c = CHR 0x20 \<or> c = CHR 0x09 \<or> c = CHR 0x0A \<or> c = CHR 0x0D)"

definition skip_ws :: "string \<Rightarrow> string" where
  "skip_ws t = dropWhile is_ws t"

definition hex_val :: "char \<Rightarrow> nat option" where
  "hex_val c =
     (let n = (of_char c :: nat)
      in if 48 \<le> n \<and> n \<le> 57 then Some (n - 48)
         else if 97 \<le> n \<and> n \<le> 102 then Some (n - 87)
         else if 65 \<le> n \<and> n \<le> 70 then Some (n - 55)
         else None)"

definition unescape :: "char \<Rightarrow> char option" where
  "unescape e =
     (if e = CHR 0x22 then Some (CHR 0x22)
      else if e = CHR 0x5C then Some (CHR 0x5C)
      else if e = CHR ''/'' then Some (CHR ''/'')
      else if e = CHR ''b'' then Some (CHR 0x08)
      else if e = CHR ''f'' then Some (CHR 0x0C)
      else if e = CHR ''n'' then Some (CHR 0x0A)
      else if e = CHR ''r'' then Some (CHR 0x0D)
      else if e = CHR ''t'' then Some (CHR 0x09)
      else None)"

text \<open>
  The text of a string after its opening quote: the decoded string and what follows
  the closing quote. An escape \<open>\uXXXX\<close> is decoded below U+0100.
\<close>

fun scan_string :: "string \<Rightarrow> (string \<times> string) option" where
  "scan_string [] = None"
| "scan_string (c # cs) =
     (if c = CHR 0x22 then Some ([], cs)
      else if c = CHR 0x5C then
        (case cs of
           [] \<Rightarrow> None
         | e # rest \<Rightarrow>
             if e = CHR ''u'' then
               (case rest of
                  h1 # h2 # h3 # h4 # rest' \<Rightarrow>
                    (case (hex_val h1, hex_val h2, hex_val h3, hex_val h4) of
                       (Some a, Some b, Some x, Some y) \<Rightarrow>
                         if a = 0 \<and> b = 0 then
                           (case scan_string rest' of
                              None \<Rightarrow> None
                            | Some (t, r) \<Rightarrow> Some (char_of (16 * x + y) # t, r))
                         else None
                     | _ \<Rightarrow> None)
                | _ \<Rightarrow> None)
             else
               (case unescape e of
                  None \<Rightarrow> None
                | Some ch \<Rightarrow>
                    (case scan_string rest of None \<Rightarrow> None | Some (t, r) \<Rightarrow> Some (ch # t, r))))
      else if (of_char c :: nat) < 32 then None
      else (case scan_string cs of None \<Rightarrow> None | Some (t, r) \<Rightarrow> Some (c # t, r)))"

text \<open>An integer literal; a fraction or an exponent after it makes a float, which is left out.\<close>

definition scan_number :: "string \<Rightarrow> (json \<times> string) option" where
  "scan_number t =
     (let (neg, u) = (case t of [] \<Rightarrow> (False, []) | c # cs \<Rightarrow> if c = CHR ''-'' then (True, cs) else (False, t));
          ds = (case u of [] \<Rightarrow> [] | c # cs \<Rightarrow> if c = CHR ''0'' then [c] else takeWhile is_digit u);
          rest = drop (length ds) u
      in if ds = [] then None
         else if rest \<noteq> [] \<and> hd rest \<in> {CHR ''.'', CHR ''e'', CHR ''E''} then None
         else Some (JInt (if neg then - int (digits_val ds) else int (digits_val ds)), rest))"

text \<open>A key read again replaces the value and keeps its place, as in a \<open>dict\<close>.\<close>

fun dict_set :: "(string \<times> json) list \<Rightarrow> string \<Rightarrow> json \<Rightarrow> (string \<times> json) list" where
  "dict_set [] k v = [(k, v)]"
| "dict_set ((k', v') # kvs) k v = (if k' = k then (k, v) # kvs else (k', v') # dict_set kvs k v)"

text \<open>
  The parser, on a text whose leading white space is gone. The first argument bounds
  the depth of the calls; \<open>json_loads\<close> starts it above the length of the text.
\<close>

fun parse_value :: "nat \<Rightarrow> string \<Rightarrow> (json \<times> string) option"
  and parse_items :: "nat \<Rightarrow> string \<Rightarrow> (json list \<times> string) option"
  and parse_pairs :: "nat \<Rightarrow> (string \<times> json) list \<Rightarrow> string \<Rightarrow> ((string \<times> json) list \<times> string) option" where
  "parse_value 0 t = None"
| "parse_value (Suc n) t =
     (case t of
        [] \<Rightarrow> None
      | c # cs \<Rightarrow>
          if c = CHR 0x22 then
            (case scan_string cs of None \<Rightarrow> None | Some (x, r) \<Rightarrow> Some (JStr x, r))
          else if c = CHR ''['' then
            (case skip_ws cs of
               [] \<Rightarrow> None
             | d # r \<Rightarrow>
                 if d = CHR '']'' then Some (JList [], r)
                 else (case parse_items n (d # r) of None \<Rightarrow> None | Some (xs, r') \<Rightarrow> Some (JList xs, r')))
          else if c = CHR ''{'' then
            (case skip_ws cs of
               [] \<Rightarrow> None
             | d # r \<Rightarrow>
                 if d = CHR ''}'' then Some (JDict [], r)
                 else (case parse_pairs n [] (d # r) of None \<Rightarrow> None | Some (kvs, r') \<Rightarrow> Some (JDict kvs, r')))
          else if take 4 t = ''null'' then Some (JNull, drop 4 t)
          else if take 4 t = ''true'' then Some (JBool True, drop 4 t)
          else if take 5 t = ''false'' then Some (JBool False, drop 5 t)
          else scan_number t)"
| "parse_items 0 t = None"
| "parse_items (Suc n) t =
     (case parse_value n t of
        None \<Rightarrow> None
      | Some (v, r) \<Rightarrow>
          (case skip_ws r of
             [] \<Rightarrow> None
           | d # r' \<Rightarrow>
               if d = CHR '','' then
                 (case parse_items n (skip_ws r') of None \<Rightarrow> None | Some (vs, r'') \<Rightarrow> Some (v # vs, r''))
               else if d = CHR '']'' then Some ([v], r')
               else None))"
| "parse_pairs 0 acc t = None"
| "parse_pairs (Suc n) acc t =
     (case t of
        [] \<Rightarrow> None
      | c # cs \<Rightarrow>
          if c \<noteq> CHR 0x22 then None
          else
            (case scan_string cs of
               None \<Rightarrow> None
             | Some (k, r) \<Rightarrow>
                 (case skip_ws r of
                    [] \<Rightarrow> None
                  | d # r' \<Rightarrow>
                      if d \<noteq> CHR '':'' then None
                      else
                        (case parse_value n (skip_ws r') of
                           None \<Rightarrow> None
                         | Some (v, r'') \<Rightarrow>
                             (case skip_ws r'' of
                                [] \<Rightarrow> None
                              | e # r3 \<Rightarrow>
                                  if e = CHR '','' then parse_pairs n (dict_set acc k v) (skip_ws r3)
                                  else if e = CHR ''}'' then Some (dict_set acc k v, r3)
                                  else None)))))"

definition json_loads :: "string \<Rightarrow> json option" where
  "json_loads t =
     (case parse_value (Suc (length t)) (skip_ws t) of
        None \<Rightarrow> None
      | Some (v, r) \<Rightarrow> if skip_ws r = [] then Some v else None)"

definition py_json :: json_module where
  "py_json = \<lparr>loads = json_loads, dumps = json_dumps\<rparr>"

subsection \<open>Uploads that are persisted\<close>

text \<open>
  Words for the statements below. A part is \<open>named\<close> when its file name is not
  empty; \<open>new_files\<close> are the parts of an update that its loop writes, in upload
  order; \<open>public_path pid u p\<close> says that \<open>p\<close> is a public path of the product for
  the part \<open>u\<close>: the upload directory, the identifier, an index, and the extension
  of the name of \<open>u\<close>.
\<close>

definition named :: "upload \<Rightarrow> bool" where
  "named u = truthy (filename u)"

definition new_files :: "upload list option \<Rightarrow> upload list" where
  "new_files images =
     (if has_upload images then filter named (case images of None \<Rightarrow> [] | Some l \<Rightarrow> l) else [])"

definition public_path :: "string \<Rightarrow> upload \<Rightarrow> string \<Rightarrow> bool" where
  "public_path pid u p =
     (\<exists>k fname. filename u = Some fname \<and>
        p = ''/static/uploads/'' @ pid @ ''_'' @ str_nat k @ ''.'' @ ext_of fname)"

subsection \<open>A row as it is listed\<close>

text \<open>
  Words for the statements about reads. \<open>decoded json col v\<close>: the value \<open>v\<close> is
  the array that the column \<open>col\<close> holds, the empty array when the column is absent
  or empty. \<open>shows_row json r p\<close>: the dictionary \<open>p\<close> is the row \<open>r\<close> with its three
  array columns decoded. \<open>decodable json col\<close>: the column is absent, empty, or a text
  that \<open>json.loads\<close> accepts; \<open>decodable_row\<close>: the three array columns of the row
  are. \<open>compliant_column json col\<close>: what the column decodes to, if it decodes, holds
  no NaN and no infinity. \<open>listable json r\<close>: the row can be decoded and rendered,
  that is, its array columns are decodable and compliant and its price is a
  number.
\<close>

definition decoded :: "json_module \<Rightarrow> string option \<Rightarrow> json \<Rightarrow> bool" where
  "decoded json col v =
     (case col of
        None \<Rightarrow> v = JList []
      | Some t \<Rightarrow> if t = [] then v = JList [] else loads json t = Some v)"

definition shows_row :: "json_module \<Rightarrow> row \<Rightarrow> product \<Rightarrow> bool" where
  "shows_row json r p =
     (p_id p = row_id r \<and> p_product_id p = row_product_id r \<and> p_name p = row_name r \<and>
      p_type p = row_type r \<and> p_category p = row_category r \<and> p_details p = row_details r \<and>
      p_price p = row_price r \<and> p_created_at p = row_created_at r \<and>
      decoded json (row_sizes r) (p_sizes p) \<and> decoded json (row_colors r) (p_colors p) \<and>
      decoded json (row_images r) (p_images p))"

definition decodable :: "json_module \<Rightarrow> string option \<Rightarrow> bool" where
  "decodable json col = (case col of None \<Rightarrow> True | Some t \<Rightarrow> t = [] \<or> loads json t \<noteq> None)"

definition decodable_row :: "json_module \<Rightarrow> row \<Rightarrow> bool" where
  "decodable_row json r =
     (decodable json (row_sizes r) \<and> decodable json (row_colors r) \<and>
      decodable json (row_images r))"

definition compliant_column :: "json_module \<Rightarrow> string option \<Rightarrow> bool" where
  "compliant_column json col =
     (case col of
        None \<Rightarrow> True
      | Some t \<Rightarrow>
          t = [] \<or> (case loads json t of None \<Rightarrow> True | Some v \<Rightarrow> json_compliant v))"

definition listable :: "json_module \<Rightarrow> row \<Rightarrow> bool" where
  "listable json r =
     (decodable_row json r \<and> is_finite (row_price r) \<and>
      compliant_column json (row_sizes r) \<and> compliant_column json (row_colors r) \<and>
      compliant_column json (row_images r))"

subsection \<open>Sequential creation\<close>

text \<open>
  The stores that creations alone produce, one call after the other, from a table
  without rows; a creation that fails counts as a call.
\<close>

inductive created_only :: "json_module \<Rightarrow> state \<Rightarrow> bool" for json :: json_module where
  no_rows: "rows s = [] \<Longrightarrow> created_only json s"
| created: "created_only json s \<Longrightarrow> create_product json now form images s = (r, s') \<Longrightarrow>
     created_only json s'"

subsection \<open>Fixtures\<close>

text \<open>
  The paths that can be opened for writing in a working directory where
  \<open>static/uploads\<close> has no subdirectory: the directory, then a name of at most 255
  characters without a slash and without a NUL.
\<close>

definition in_uploads :: "string \<Rightarrow> bool" where
  "in_uploads path =
     (take 15 path = ''static/uploads/'' \<and>
      (let n = drop 15 path
       in n \<noteq> [] \<and> length n \<le> 255 \<and> list_all (\<lambda>c. c \<noteq> CHR ''/'' \<and> c \<noteq> CHR 0x00) n))"

text \<open>A store with no product, and the fields of a product called Tee.\<close>

definition empty_store :: state where
  "empty_store = \<lparr>rows = [], seq = 0, files = [DATABASE_PATH \<mapsto> ''SQLite''],
     writable = in_uploads\<rparr>"

definition tee :: fields where
  "tee = \<lparr>name = ''Tee'', type = ''apparel'', category = ''tops'', details = ''A tee'',
          price = Finite (1999 / 100), sizes = ''[]'', colors = ''[]''\<rparr>"

text \<open>The store after the creation of Tee, without images, at time 7 in the empty store.\<close>

definition tee_row :: row where
  "tee_row = \<lparr>row_id = 1, row_product_id = ''RW0001'', row_name = ''Tee'', row_type = ''apparel'',
     row_category = Some ''tops'', row_details = Some ''A tee'', row_price = Finite (1999 / 100),
     row_sizes = Some ''[]'', row_colors = Some ''[]'', row_images = Some ''[]'',
     row_created_at = 7\<rparr>"

definition tee_store :: state where
  "tee_store = \<lparr>rows = [tee_row], seq = 1, files = [DATABASE_PATH \<mapsto> ''SQLite''],
     writable = in_uploads\<rparr>"

text \<open>Two files to upload, and the text of a list that retains one path.\<close>

definition front :: upload where
  "front = \<lparr>filename = Some ''front.jpg'', content = ''JPG''\<rparr>"

definition side :: upload where
  "side = \<lparr>filename = Some ''side.png'', content = ''PNG''\<rparr>"

definition keep :: string where
  "keep = ''[\"/static/uploads/RW0001_0.jpg\"]''"

text \<open>The configured administrator (the defaults of the source) and their credentials.\<close>

definition default_settings :: settings where
  "default_settings = \<lparr>ADMIN_USERNAME = ''rimu_admin'', ADMIN_PASSWORD = ''rimu2024secure''\<rparr>"

definition admin_credentials :: credentials where
  "admin_credentials = \<lparr>username = ''rimu_admin'', password = ''rimu2024secure''\<rparr>"

text \<open>
  The request of the scenario: name, type and price, and nothing else. The same
  request with a category, details and the part an empty file input submits.
\<close>

definition tee_request :: create_form where
  "tee_request = \<lparr>form_name = Some ''Tee'', form_type = Some ''apparel'', form_category = None,
     form_details = None, form_price = Some (Finite (1999 / 100)), form_sizes = None,
     form_colors = None, form_images = []\<rparr>"

definition tee_request_full :: create_form where
  "tee_request_full = tee_request\<lparr>form_category := Some ''tops'', form_details := Some ''A tee'',
     form_images := [\<lparr>filename = Some [], content = []\<rparr>]\<rparr>"

text \<open>
  The full request with a \<open>sizes\<close> that is no JSON and one file; the full request
  for shoes whose \<open>sizes\<close> is the JSON number 5.
\<close>

definition odd_request :: create_form where
  "odd_request = tee_request_full\<lparr>form_sizes := Some ''not json'', form_images := [front]\<rparr>"


text \<open>The text of a list of one image path, which names the database file.\<close>

definition database_image :: string where
  "database_image = ''[\"/data/rimu_world.db\"]''"

text \<open>
  A table of three products: shoes created at 3, a tee created at 7, shoes created
  at 9 with two sizes.
\<close>

definition shop :: state where
  "shop = \<lparr>rows =
       [tee_row\<lparr>row_product_id := ''RW0000'', row_id := 0, row_type := ''shoes'',
          row_created_at := 3, row_sizes := None\<rparr>,
        tee_row,
        tee_row\<lparr>row_product_id := ''RW0002'', row_id := 2, row_type := ''shoes'',
          row_created_at := 9, row_sizes := Some ''[\"41\", \"42\"]''\<rparr>],
     seq = 2, files = [DATABASE_PATH \<mapsto> ''SQLite''], writable = in_uploads\<rparr>"

section \<open>Properties\<close>

subsection \<open>Decimal digits\<close>

lemma of_char_digit_char: "d < 10 \<Longrightarrow> (of_char (digit_char d) :: nat) = 48 + d"
  by (simp add: digit_char_def)

lemma digits_val_snoc: "digits_val (ds @ [c]) = 10 * digits_val ds + ((of_char c :: nat) - 48)"
  by (simp add: digits_val_def)

lemma digits_val_str_nat: "digits_val (str_nat n) = n"
proof (induction n rule: str_nat.induct)
  case (1 n)
  show ?case
  proof (cases "n < 10")
    case True
    then show ?thesis
      by (subst str_nat.simps) (simp add: digits_val_def of_char_digit_char)
  next
    case False
    with 1 have "digits_val (str_nat (n div 10)) = n div 10" by simp
    with False show ?thesis
      by (subst str_nat.simps) (simp add: digits_val_snoc of_char_digit_char)
  qed
qed

lemma digits_val_zeros: "digits_val (replicate k CHR ''0'' @ ds) = digits_val ds"
proof -
  have z: "foldl (\<lambda>acc c. 10 * acc + ((of_char c :: nat) - 48)) 0 (replicate k CHR ''0'') = 0"
    by (induction k) simp_all
  show ?thesis by (simp add: digits_val_def z)
qed

lemma digits_val_format_04d: "digits_val (format_04d n) = n"
  by (simp add: format_04d_def Let_def digits_val_zeros digits_val_str_nat)

lemma is_digit_digit_char: "d < 10 \<Longrightarrow> is_digit (digit_char d)"
  by (simp add: is_digit_def of_char_digit_char)

lemma str_nat_digits: "list_all is_digit (str_nat n)"
proof (induction n rule: str_nat.induct)
  case (1 n)
  show ?case
  proof (cases "n < 10")
    case True
    then show ?thesis by (subst str_nat.simps) (simp add: is_digit_digit_char)
  next
    case False
    with 1 have "list_all is_digit (str_nat (n div 10))" by simp
    with False show ?thesis by (subst str_nat.simps) (simp add: is_digit_digit_char)
  qed
qed

lemma format_04d_digits: "list_all is_digit (format_04d n)"
  using str_nat_digits [of n]
  by (auto simp: format_04d_def Let_def list_all_iff is_digit_def)

lemma length_format_04d: "length (format_04d n) = max 4 (length (str_nat n))"
  by (simp add: format_04d_def Let_def)

lemma format_04d_inj: "format_04d m = format_04d n \<Longrightarrow> m = n"
  by (metis digits_val_format_04d)

subsection \<open>Product identifiers\<close>

lemma format_04d_1: "format_04d (Suc 0) = ''0001''"
  by code_simp

lemma create_product_Inr:
  assumes "create_product json now form images s = (Inr r, s')"
  shows "product_id r = generate_product_id s"
    and "generate_product_id s \<notin> row_product_id ` set (rows s)"
    and "map row_product_id (rows s') = map row_product_id (rows s) @ [generate_product_id s]"
    and "length (rows s') = Suc (length (rows s))"
  using assms
  by (auto simp: create_product_def Let_def split: prod.splits if_splits sum.splits)

lemma create_product_Inl:
  assumes "create_product json now form images s = (Inl e, s')"
  shows "rows s' = rows s"
  using assms
  by (auto simp: create_product_def Let_def split: prod.splits if_splits sum.splits)

lemma created_only_ids:
  "created_only json s \<Longrightarrow>
   map row_product_id (rows s) = map (\<lambda>i. ''RW'' @ format_04d (Suc i)) [0..<length (rows s)]"
proof (induction rule: created_only.induct)
  case (no_rows s)
  then show ?case by simp
next
  case (created s now form images r s')
  show ?case
  proof (cases r)
    case (Inl e)
    with created show ?thesis by (simp add: create_product_Inl)
  next
    case (Inr a)
    with created.hyps(2) have
      "map row_product_id (rows s') = map row_product_id (rows s) @ [generate_product_id s]"
      by (simp add: create_product_Inr(3))
    with created.IH create_product_Inr(4) [OF created.hyps(2) [unfolded Inr]] show ?thesis
      by (simp add: generate_product_id_def)
  qed
qed

lemma created_only_fresh:
  assumes "created_only json s"
  shows "generate_product_id s \<notin> row_product_id ` set (rows s)"
proof
  assume "generate_product_id s \<in> row_product_id ` set (rows s)"
  then have "generate_product_id s \<in> set (map row_product_id (rows s))" by simp
  then have "generate_product_id s
      \<in> set (map (\<lambda>i. ''RW'' @ format_04d (Suc i)) [0..<length (rows s)])"
    using created_only_ids [OF assms] by simp
  then obtain i where "i < length (rows s)"
    and "format_04d (Suc (length (rows s))) = format_04d (Suc i)"
    by (auto simp: generate_product_id_def)
  then show False by (auto dest: format_04d_inj)
qed

lemma created_only_distinct:
  assumes "created_only json s"
  shows "distinct (map row_product_id (rows s))"
proof -
  have "inj_on (\<lambda>i. ''RW'' @ format_04d (Suc i)) (set [0..<length (rows s)])"
    by (auto simp: inj_on_def dest: format_04d_inj)
  then have "distinct (map (\<lambda>i. ''RW'' @ format_04d (Suc i)) [0..<length (rows s)])"
    by (simp add: distinct_map)
  then show ?thesis using created_only_ids [OF assms] by simp
qed

lemma create_tee_reply:
  "fst (create_product py_json 7 tee [] empty_store) =
     Inr \<lparr>message = ''Product created successfully'', product_id = ''RW0001''\<rparr>"
  by code_simp

lemma create_tee_store: "snd (create_product py_json 7 tee [] empty_store) = tee_store"
  by (simp add: create_product_def generate_product_id_def format_04d_1 empty_store_def tee_def
      tee_store_def tee_row_def py_json_def Let_def)

lemma create_second_reply:
  "fst (create_product py_json 8 tee [front, side] tee_store) =
     Inr \<lparr>message = ''Product created successfully'', product_id = ''RW0002''\<rparr>"
  by code_simp

lemma create_second_ids:
  "map row_product_id (rows (snd (create_product py_json 8 tee [front, side] tee_store))) =
     [''RW0001'', ''RW0002'']"
  by code_simp

lemma create_tee:
  "create_product py_json 7 tee [] empty_store =
     (Inr \<lparr>message = ''Product created successfully'', product_id = ''RW0001''\<rparr>, tee_store)"
  using create_tee_reply create_tee_store by (simp add: prod_eq_iff)

lemma create_second:
  "create_product py_json 8 tee [front, side] tee_store =
     (Inr \<lparr>message = ''Product created successfully'', product_id = ''RW0002''\<rparr>,
      snd (create_product py_json 8 tee [front, side] tee_store))"
  using create_second_reply by (simp add: prod_eq_iff)

lemma created_only_tee_store: "created_only py_json tee_store"
proof -
  have "created_only py_json empty_store"
    by (rule created_only.no_rows) (simp add: empty_store_def)
  from created_only.created [OF this create_tee] show ?thesis .
qed

text \<open>
  C1. A creation that succeeds answers with \<open>RW\<close> followed by the number of rows
  plus one in decimal digits, filled with zeros up to four digits, and stores the
  row under that identifier, which no row had before: identifiers that were
  pairwise distinct stay so. In a store that creations alone have produced, one
  after the other, the identifiers are pairwise distinct and the identifier that
  the next creation generates is none of them.
\<close>

theorem create_product_id_unique:
  "(create_product json now form images s = (Inr r, s') \<longrightarrow>
      product_id r = ''RW'' @ format_04d (length (rows s) + 1) \<and>
      digits_val (format_04d (length (rows s) + 1)) = length (rows s) + 1 \<and>
      list_all is_digit (format_04d (length (rows s) + 1)) \<and>
      length (format_04d (length (rows s) + 1)) = max 4 (length (str_nat (length (rows s) + 1))) \<and>
      product_id r \<notin> row_product_id ` set (rows s) \<and>
      map row_product_id (rows s') = map row_product_id (rows s) @ [product_id r] \<and>
      (distinct (map row_product_id (rows s)) \<longrightarrow> distinct (map row_product_id (rows s')))) \<and>
   (created_only json s \<longrightarrow>
      distinct (map row_product_id (rows s)) \<and>
      generate_product_id s = ''RW'' @ format_04d (length (rows s) + 1) \<and>
      generate_product_id s \<notin> row_product_id ` set (rows s))"
proof (intro conjI impI)
  assume c: "create_product json now form images s = (Inr r, s')"
  show "product_id r = ''RW'' @ format_04d (length (rows s) + 1)"
    using create_product_Inr(1) [OF c] by (simp add: generate_product_id_def)
  show "digits_val (format_04d (length (rows s) + 1)) = length (rows s) + 1"
    by (rule digits_val_format_04d)
  show "list_all is_digit (format_04d (length (rows s) + 1))"
    by (rule format_04d_digits)
  show "length (format_04d (length (rows s) + 1)) = max 4 (length (str_nat (length (rows s) + 1)))"
    by (rule length_format_04d)
  show f: "product_id r \<notin> row_product_id ` set (rows s)"
    using create_product_Inr(1,2) [OF c] by simp
  show m: "map row_product_id (rows s') = map row_product_id (rows s) @ [product_id r]"
    using create_product_Inr(1,3) [OF c] by simp
  assume "distinct (map row_product_id (rows s))"
  with f m show "distinct (map row_product_id (rows s'))" by simp
next
  assume "created_only json s"
  then show "distinct (map row_product_id (rows s))" by (rule created_only_distinct)
next
  show "generate_product_id s = ''RW'' @ format_04d (length (rows s) + 1)"
    by (simp add: generate_product_id_def)
next
  assume "created_only json s"
  then show "generate_product_id s \<notin> row_product_id ` set (rows s)"
    by (rule created_only_fresh)
qed

theorem create_product_id_unique_witness:
  "create_product py_json 8 tee [front, side] tee_store =
     (Inr \<lparr>message = ''Product created successfully'', product_id = ''RW0002''\<rparr>,
      snd (create_product py_json 8 tee [front, side] tee_store)) \<and>
   created_only py_json tee_store \<and>
   distinct (map row_product_id (rows tee_store)) \<and>
   ''RW0002'' = ''RW'' @ format_04d (length (rows tee_store) + 1) \<and>
   ''RW0002'' \<notin> row_product_id ` set (rows tee_store) \<and>
   map row_product_id (rows (snd (create_product py_json 8 tee [front, side] tee_store))) =
     map row_product_id (rows tee_store) @ [''RW0002''] \<and>
   distinct (map row_product_id (rows (snd (create_product py_json 8 tee [front, side] tee_store)))) \<and>
   generate_product_id tee_store \<notin> row_product_id ` set (rows tee_store)"
proof -
  let ?r = "\<lparr>message = ''Product created successfully'', product_id = ''RW0002''\<rparr>"
  let ?s' = "snd (create_product py_json 8 tee [front, side] tee_store)"
  note t = create_product_id_unique [of py_json 8 tee "[front, side]" tee_store ?r ?s']
  from t create_second
  have 1: "product_id ?r = ''RW'' @ format_04d (length (rows tee_store) + 1)"
    and 2: "product_id ?r \<notin> row_product_id ` set (rows tee_store)"
    and 3: "map row_product_id (rows ?s') = map row_product_id (rows tee_store) @ [product_id ?r]"
    and 4: "distinct (map row_product_id (rows tee_store)) \<longrightarrow>
      distinct (map row_product_id (rows ?s'))"
    by blast+
  from t created_only_tee_store
  have 5: "distinct (map row_product_id (rows tee_store))"
    and 6: "generate_product_id tee_store \<notin> row_product_id ` set (rows tee_store)"
    by blast+
  have p: "product_id ?r = ''RW0002''" by simp
  from 1 2 3 4 5 6 create_second created_only_tee_store show ?thesis
    unfolding p by blast
qed

subsection \<open>Rows and files of an update\<close>

lemma select_one_None: "select_one pid s = None \<longleftrightarrow> pid \<notin> row_product_id ` set (rows s)"
  by (auto simp: select_one_def find_None_iff)

lemma select_one_Some:
  "select_one pid s = Some r \<Longrightarrow> r \<in> set (rows s) \<and> row_product_id r = pid"
  by (auto simp: select_one_def find_Some_iff)

lemma decode_column_not_NotFound: "decode_column json v \<noteq> Inl NotFound"
  by (simp add: decode_column_def split: option.splits)

lemma to_product_not_NotFound: "to_product json r \<noteq> Inl NotFound"
  using decode_column_not_NotFound [of json]
  by (auto simp: to_product_def split: sum.splits)

lemma save_new_images_error:
  "save_new_images w pid idx images fs image_paths = (Inl e, fs') \<Longrightarrow>
   e = AttributeError \<or> e = TypeError \<or> e = OSError"
  by (induction images arbitrary: idx fs image_paths)
    (auto simp: Let_def split: option.splits json.splits if_splits)

lemma lstrip_slash_public: "lstrip_slash (''/static/uploads/'' @ n) = ''static/uploads/'' @ n"
  by (simp add: lstrip_slash_def)

lemma save_new_images_list:
  "save_new_images w pid idx images fs (JList xs) = (Inr v, fs') \<Longrightarrow>
   \<exists>new. v = JList (xs @ map JStr new) \<and>
     list_all2 (\<lambda>p u. public_path pid u p) new (filter named images) \<and>
     (\<forall>p\<in>set new. lstrip_slash p \<in> dom fs') \<and> dom fs \<subseteq> dom fs'"
proof (induction images arbitrary: idx fs xs)
  case Nil
  then show ?case by auto
next
  case (Cons u images)
  show ?case
  proof (cases "named u")
    case False
    with Cons.prems have "save_new_images w pid (Suc idx) images fs (JList xs) = (Inr v, fs')"
      by (auto simp: named_def truthy_def split: option.splits if_splits)
    from Cons.IH [OF this] False show ?thesis by simp
  next
    case True
    then obtain fname where f: "filename u = Some fname" "fname \<noteq> []"
      by (auto simp: named_def truthy_def split: option.splits)
    define n where "n = pid @ ''_'' @ str_nat (length xs + idx) @ ''.'' @ ext_of fname"
    from Cons.prems f have
      "save_new_images w pid (Suc idx) images (fs(''static/uploads/'' @ n \<mapsto> content u))
         (JList (xs @ [JStr (''/static/uploads/'' @ n)])) = (Inr v, fs')"
      by (simp add: Let_def n_def split: if_splits)
    from Cons.IH [OF this] obtain new where
      r: "v = JList ((xs @ [JStr (''/static/uploads/'' @ n)]) @ map JStr new)"
      and l: "list_all2 (\<lambda>p u. public_path pid u p) new (filter named images)"
      and d: "\<forall>p\<in>set new. lstrip_slash p \<in> dom fs'"
      and m: "dom (fs(''static/uploads/'' @ n \<mapsto> content u)) \<subseteq> dom fs'"
      by blast
    have p: "public_path pid u (''/static/uploads/'' @ n)"
      unfolding public_path_def n_def using f by blast
    have "lstrip_slash (''/static/uploads/'' @ n) \<in> dom fs'"
      using m by (simp only: lstrip_slash_public) auto
    with r l d m p True show ?thesis
      by (intro exI [of _ "(''/static/uploads/'' @ n) # new"]) auto
  qed
qed

lemma update_product_Inr:
  assumes "update_product json pid form images existing_images s = (Inr r, s')"
  shows "\<exists>v image_paths.
     select_one pid s \<noteq> None \<and> loads json existing_images = Some v \<and>
     (v = JList [] \<or> py_copy v = Some v) \<and>
     (if has_upload images
      then save_new_images (writable s) pid 0 (case images of None \<Rightarrow> [] | Some l \<Rightarrow> l)
             (files s) v
      else (Inr v, files s)) = (Inr image_paths, files s') \<and>
     rows s' = update_rows pid form (dumps json image_paths) (rows s) \<and>
     seq s' = seq s \<and> r = \<lparr>message = ''Product updated successfully'', product_id = pid\<rparr>"
  using assms
  by (auto simp: update_product_def Let_def py_copy_def
      split: option.splits prod.splits sum.splits json.splits if_splits)

lemma set_columns_kept [simp]:
  "row_product_id (set_columns form t r) = row_product_id r"
  "row_created_at (set_columns form t r) = row_created_at r"
  "row_id (set_columns form t r) = row_id r"
  by (simp_all add: set_columns_def)

lemma set_columns_written [simp]:
  "row_name (set_columns form t r) = name form"
  "row_type (set_columns form t r) = type form"
  "row_category (set_columns form t r) = Some (category form)"
  "row_details (set_columns form t r) = Some (details form)"
  "row_price (set_columns form t r) = price form"
  "row_sizes (set_columns form t r) = Some (sizes form)"
  "row_colors (set_columns form t r) = Some (colors form)"
  "row_images (set_columns form t r) = Some t"
  by (simp_all add: set_columns_def)

lemma update_rows_ids: "map row_product_id (update_rows pid form t rs) = map row_product_id rs"
  by (induction rs) (simp_all add: update_rows_def)

lemma update_rows_created_at: "map row_created_at (update_rows pid form t rs) = map row_created_at rs"
  by (induction rs) (simp_all add: update_rows_def)

lemma update_rows_row_id: "map row_id (update_rows pid form t rs) = map row_id rs"
  by (induction rs) (simp_all add: update_rows_def)

lemma update_rows_images:
  assumes "r \<in> set (update_rows pid form t rs)" and "row_product_id r = pid"
  shows "row_images r = Some t"
proof -
  from assms(1) have
    "r \<in> (\<lambda>r. if row_product_id r = pid then set_columns form t r else r) ` set rs"
    unfolding update_rows_def by simp
  then obtain x where
    x: "r = (if row_product_id x = pid then set_columns form t x else x)"
    by blast
  show ?thesis
  proof (cases "row_product_id x = pid")
    case True
    with x show ?thesis by simp
  next
    case False
    with x have "r = x" by simp
    with False assms(2) show ?thesis by simp
  qed
qed

lemma update_rows_nth:
  "i < length rs \<Longrightarrow>
   update_rows pid form t rs ! i =
     (if row_product_id (rs ! i) = pid then set_columns form t (rs ! i) else rs ! i)"
  by (simp add: update_rows_def)

subsection \<open>Unknown identifiers\<close>

text \<open>
  C6. A read and an update fail with \<open>NotFound\<close> exactly when no row has the
  identifier. An update that fails so returns the state it was called in: no file
  is written and no row changes.
\<close>

theorem not_found_iff:
  "(get_product json pid s = Inl NotFound \<longleftrightarrow> pid \<notin> row_product_id ` set (rows s)) \<and>
   (fst (update_product json pid form images existing_images s) = Inl NotFound
      \<longleftrightarrow> pid \<notin> row_product_id ` set (rows s)) \<and>
   (pid \<notin> row_product_id ` set (rows s) \<longrightarrow>
      update_product json pid form images existing_images s = (Inl NotFound, s))"
proof (intro conjI impI)
  show "get_product json pid s = Inl NotFound \<longleftrightarrow> pid \<notin> row_product_id ` set (rows s)"
    using to_product_not_NotFound [of json]
    by (auto simp: get_product_def select_one_None [symmetric] split: option.splits)
  show "fst (update_product json pid form images existing_images s) = Inl NotFound
      \<longleftrightarrow> pid \<notin> row_product_id ` set (rows s)"
    by (auto simp: update_product_def select_one_None [symmetric] Let_def
        split: option.splits prod.splits sum.splits dest: save_new_images_error)
  assume "pid \<notin> row_product_id ` set (rows s)"
  then show "update_product json pid form images existing_images s = (Inl NotFound, s)"
    by (simp add: update_product_def select_one_None [symmetric])
qed

theorem not_found_iff_witness:
  "''RW0002'' \<notin> row_product_id ` set (rows tee_store) \<and>
   get_product py_json ''RW0002'' tee_store = Inl NotFound \<and>
   update_product py_json ''RW0002'' tee (Some [side]) keep tee_store = (Inl NotFound, tee_store) \<and>
   ''RW0001'' \<in> row_product_id ` set (rows tee_store) \<and>
   get_product py_json ''RW0001'' tee_store \<noteq> Inl NotFound \<and>
   fst (update_product py_json ''RW0001'' tee (Some [side]) keep tee_store) \<noteq> Inl NotFound"
proof -
  have a: "''RW0002'' \<notin> row_product_id ` set (rows tee_store)"
    by (simp add: tee_store_def tee_row_def)
  have b: "''RW0001'' \<in> row_product_id ` set (rows tee_store)"
    by (simp add: tee_store_def tee_row_def)
  from a b
    not_found_iff [of py_json "''RW0002''" tee_store tee "Some [side]" keep]
    not_found_iff [of py_json "''RW0001''" tee_store tee "Some [side]" keep]
  show ?thesis by blast
qed

subsection \<open>What an update writes\<close>

lemma update_tee_reply:
  "fst (update_product py_json ''RW0001'' tee (Some [side]) keep tee_store)
     = Inr \<lparr>message = ''Product updated successfully'', product_id = ''RW0001''\<rparr>"
  by code_simp

lemma update_tee:
  "update_product py_json ''RW0001'' tee (Some [side]) keep tee_store =
     (Inr \<lparr>message = ''Product updated successfully'', product_id = ''RW0001''\<rparr>,
      snd (update_product py_json ''RW0001'' tee (Some [side]) keep tee_store))"
  using update_tee_reply by (simp add: prod_eq_iff)

lemma loads_keep: "loads py_json keep = Some (JList [JStr ''/static/uploads/RW0001_0.jpg''])"
  by code_simp

lemma update_tee_images:
  "map row_images (rows (snd (update_product py_json ''RW0001'' tee (Some [side]) keep tee_store)))
     = [Some ''[\"/static/uploads/RW0001_0.jpg\", \"/static/uploads/RW0001_1.png\"]'']"
  by code_simp

lemma loads_two:
  "loads py_json ''[\"/static/uploads/RW0001_0.jpg\", \"/static/uploads/RW0001_1.png\"]''
     = Some (JList [JStr ''/static/uploads/RW0001_0.jpg'', JStr ''/static/uploads/RW0001_1.png''])"
  by code_simp

text \<open>
  C9. After an update that succeeds the table has the same rows in the same order
  with the same \<open>product_id\<close>, \<open>created_at\<close> and \<open>id\<close>: a row with another
  identifier is unchanged, and the row of the product is the old one with the eight
  columns of the \<open>SET\<close> clause written.
\<close>

theorem update_product_frame:
  assumes "update_product json pid form images existing_images s = (Inr r, s')"
  shows "map row_product_id (rows s') = map row_product_id (rows s) \<and>
     map row_created_at (rows s') = map row_created_at (rows s) \<and>
     map row_id (rows s') = map row_id (rows s) \<and>
     (\<exists>t. \<forall>i<length (rows s).
        rows s' ! i =
          (if row_product_id (rows s ! i) = pid then set_columns form t (rows s ! i)
           else rows s ! i))"
proof -
  from update_product_Inr [OF assms] obtain t where
    rw: "rows s' = update_rows pid form t (rows s)" by blast
  have "\<forall>i<length (rows s).
        rows s' ! i =
          (if row_product_id (rows s ! i) = pid then set_columns form t (rows s ! i)
           else rows s ! i)"
    unfolding rw by (simp add: update_rows_nth)
  then show ?thesis
    unfolding rw by (simp only: update_rows_ids update_rows_created_at update_rows_row_id) blast
qed

theorem update_product_frame_witness:
  "update_product py_json ''RW0001'' tee (Some [side]) keep tee_store =
     (Inr \<lparr>message = ''Product updated successfully'', product_id = ''RW0001''\<rparr>,
      snd (update_product py_json ''RW0001'' tee (Some [side]) keep tee_store)) \<and>
   map row_product_id (rows (snd (update_product py_json ''RW0001'' tee (Some [side]) keep tee_store)))
     = [''RW0001''] \<and>
   map row_created_at (rows (snd (update_product py_json ''RW0001'' tee (Some [side]) keep tee_store)))
     = [7] \<and>
   map row_id (rows (snd (update_product py_json ''RW0001'' tee (Some [side]) keep tee_store)))
     = [1]"
  using update_product_frame [OF update_tee] update_tee
  by (simp add: tee_store_def tee_row_def)

text \<open>
  C3. After an update that succeeds and whose \<open>existing_images\<close> decodes to a list,
  the \<open>images\<close> column of the product is the encoding of that list, in its order,
  followed by one public path for each file written, in upload order; every such
  path names a file that is in the upload directory afterwards. Nothing compares
  the list with the directory. In the witness one path is retained and one file
  is new: the stored array has two elements, the retained path first.
\<close>

theorem update_product_images:
  assumes "update_product json pid form images existing_images s = (Inr r, s')"
    and "loads json existing_images = Some (JList retained)"
  shows "\<exists>new. pid \<in> row_product_id ` set (rows s') \<and>
     (\<forall>row\<in>set (rows s'). row_product_id row = pid \<longrightarrow>
        row_images row = Some (dumps json (JList (retained @ map JStr new)))) \<and>
     list_all2 (\<lambda>p u. public_path pid u p) new (new_files images) \<and>
     (\<forall>p\<in>set new. lstrip_slash p \<in> dom (files s'))"
proof -
  from update_product_Inr [OF assms(1)] assms(2) obtain image_paths where
    f: "select_one pid s \<noteq> None"
    and sv: "(if has_upload images
      then save_new_images (writable s) pid 0 (case images of None \<Rightarrow> [] | Some l \<Rightarrow> l)
             (files s) (JList retained)
      else (Inr (JList retained), files s)) = (Inr image_paths, files s')"
    and rw: "rows s' = update_rows pid form (dumps json image_paths) (rows s)"
    by auto
  have "\<exists>new. image_paths = JList (retained @ map JStr new) \<and>
     list_all2 (\<lambda>p u. public_path pid u p) new (new_files images) \<and>
     (\<forall>p\<in>set new. lstrip_slash p \<in> dom (files s'))"
  proof (cases "has_upload images")
    case True
    with sv have "save_new_images (writable s) pid 0 (case images of None \<Rightarrow> [] | Some l \<Rightarrow> l)
        (files s) (JList retained) = (Inr image_paths, files s')" by simp
    from save_new_images_list [OF this] True show ?thesis
      by (auto simp: new_files_def)
  next
    case False
    with sv show ?thesis by (auto simp: new_files_def)
  qed
  then obtain new where n: "image_paths = JList (retained @ map JStr new)"
    and l: "list_all2 (\<lambda>p u. public_path pid u p) new (new_files images)"
    and d: "\<forall>p\<in>set new. lstrip_slash p \<in> dom (files s')" by blast
  from f have "pid \<in> set (map row_product_id (rows s))" by (simp add: select_one_None)
  then have i: "pid \<in> row_product_id ` set (rows s')"
    unfolding rw by (simp only: update_rows_ids [symmetric, of "rows s" pid form "dumps json image_paths"] set_map)
  have "\<forall>row\<in>set (rows s'). row_product_id row = pid \<longrightarrow>
        row_images row = Some (dumps json (JList (retained @ map JStr new)))"
    unfolding rw n using update_rows_images by blast
  with i l d show ?thesis by blast
qed

theorem update_product_images_witness:
  "update_product py_json ''RW0001'' tee (Some [side]) keep tee_store =
     (Inr \<lparr>message = ''Product updated successfully'', product_id = ''RW0001''\<rparr>,
      snd (update_product py_json ''RW0001'' tee (Some [side]) keep tee_store)) \<and>
   loads py_json keep = Some (JList [JStr ''/static/uploads/RW0001_0.jpg'']) \<and>
   (\<exists>new. ''RW0001'' \<in> row_product_id `
        set (rows (snd (update_product py_json ''RW0001'' tee (Some [side]) keep tee_store))) \<and>
      (\<forall>row\<in>set (rows (snd (update_product py_json ''RW0001'' tee (Some [side]) keep tee_store))).
         row_product_id row = ''RW0001'' \<longrightarrow>
         row_images row =
           Some (dumps py_json (JList ([JStr ''/static/uploads/RW0001_0.jpg''] @ map JStr new)))) \<and>
      list_all2 (\<lambda>p u. public_path ''RW0001'' u p) new (new_files (Some [side]))) \<and>
   map row_images (rows (snd (update_product py_json ''RW0001'' tee (Some [side]) keep tee_store)))
     = [Some ''[\"/static/uploads/RW0001_0.jpg\", \"/static/uploads/RW0001_1.png\"]''] \<and>
   loads py_json ''[\"/static/uploads/RW0001_0.jpg\", \"/static/uploads/RW0001_1.png\"]''
     = Some (JList [JStr ''/static/uploads/RW0001_0.jpg'', JStr ''/static/uploads/RW0001_1.png''])"
  using update_product_images [OF update_tee loads_keep] update_tee loads_keep update_tee_images
    loads_two
  by blast

text \<open>
  C2, at an input where the code departs from it. An update that retains one image
  and uploads \<open>front.jpg\<close> and \<open>side.png\<close> writes the files with the indices 1 and
  3, not 1 and 2: the index is \<open>len(image_paths) + idx\<close>, and both summands have
  grown by one when the second file is reached. A creation with the same two files
  numbers them 0 and 1.
\<close>

theorem update_product_index_skips:
  "map row_images
     (rows (snd (update_product py_json ''RW0001'' tee (Some [front, side]) keep tee_store))) =
     [Some ''[\"/static/uploads/RW0001_0.jpg\", \"/static/uploads/RW0001_1.jpg\", \"/static/uploads/RW0001_3.png\"]''] \<and>
   files (snd (update_product py_json ''RW0001'' tee (Some [front, side]) keep tee_store))
     ''static/uploads/RW0001_1.jpg'' = Some ''JPG'' \<and>
   files (snd (update_product py_json ''RW0001'' tee (Some [front, side]) keep tee_store))
     ''static/uploads/RW0001_3.png'' = Some ''PNG'' \<and>
   files (snd (update_product py_json ''RW0001'' tee (Some [front, side]) keep tee_store))
     ''static/uploads/RW0001_2.png'' = None \<and>
   map row_images (rows (snd (create_product py_json 7 tee [front, side] empty_store))) =
     [Some ''[\"/static/uploads/RW0001_0.jpg\", \"/static/uploads/RW0001_1.png\"]'']"
  by code_simp

subsection \<open>Sizes and colours are not validated\<close>

text \<open>
  C4 fails: a request whose \<open>sizes\<close> is no JSON, with all required fields and one
  file, passes the route, the creation succeeds, and the text is stored as it came.
\<close>

theorem create_product_invalid_sizes:
  "loads py_json ''not json'' = None \<and>
   fst (post_api_admin_products default_settings py_json 7 (Some admin_credentials) odd_request
          empty_store) =
     Inr \<lparr>message = ''Product created successfully'', product_id = ''RW0001''\<rparr> \<and>
   map row_sizes
     (rows (snd (post_api_admin_products default_settings py_json 7 (Some admin_credentials)
                   odd_request empty_store))) =
     [Some ''not json'']"
  by code_simp

lemma create_product_reply_sizes:
  "fst (create_product json now (form\<lparr>sizes := x, colors := y\<rparr>) images s) =
   fst (create_product json now form images s)"
  by (simp add: create_product_def Let_def split: prod.splits sum.splits)

lemma create_product_row:
  assumes "create_product json now form images s = (Inr r, s')"
  shows "\<exists>row. rows s' = rows s @ [row] \<and> row_product_id row = product_id r \<and>
     row_sizes row = Some (sizes form) \<and> row_colors row = Some (colors form) \<and>
     row_price row = price form \<and> row_category row = Some (category form) \<and>
     row_created_at row = now \<and>
     (\<exists>paths. row_images row = Some (dumps json (JList (map JStr paths))))"
  using assms
  by (auto simp: create_product_def Let_def split: prod.splits if_splits sum.splits)

lemma find_append_None: "find P xs = None \<Longrightarrow> find P (xs @ ys) = find P ys"
  by (induction xs) (auto split: if_splits)

lemma select_one_new:
  assumes "rows s' = rows s @ [row]" and "row_product_id row = pid"
    and "pid \<notin> row_product_id ` set (rows s)"
  shows "select_one pid s' = Some row"
proof -
  from assms(3) have "find (\<lambda>r. row_product_id r = pid) (rows s) = None"
    by (auto simp: find_None_iff)
  with assms(1,2) show ?thesis
    by (simp add: select_one_def find_append_None)
qed

lemma with_default_not_empty: "d \<noteq> [] \<Longrightarrow> with_default d v \<noteq> []"
  by (auto simp: with_default_def form_text_def split: option.splits if_splits)

lemma with_default_eq:
  "with_default d v = (case v of None \<Rightarrow> d | Some t \<Rightarrow> if t = [] then d else t)"
  by (simp add: with_default_def form_text_def split: option.splits)

lemma bind_create_Some:
  assumes "bind_create f = Some (form, images)"
  shows "sizes form = with_default ''[]'' (form_sizes f)"
    and "colors form = with_default ''[]'' (form_colors f)"
    and "images = form_images f" and "form_images f \<noteq> []"
    and "form_text (form_name f) = Some (name form)"
    and "form_text (form_type f) = Some (type form)"
    and "form_text (form_category f) = Some (category form)"
    and "form_text (form_details f) = Some (details form)"
    and "form_price f = Some (price form)"
  using assms
  by (auto simp: bind_create_def split: option.splits if_splits)

lemma bind_odd_request: "bind_create odd_request = Some (tee\<lparr>sizes := ''not json''\<rparr>, [front])"
  by (simp add: bind_create_def odd_request_def tee_request_full_def tee_request_def tee_def
      form_text_def with_default_def front_def)

lemma create_odd_reply:
  "fst (create_product py_json 7 (tee\<lparr>sizes := ''not json''\<rparr>) [front] empty_store) =
     Inr \<lparr>message = ''Product created successfully'', product_id = ''RW0001''\<rparr>"
  by code_simp

lemma create_odd:
  "create_product py_json 7 (tee\<lparr>sizes := ''not json''\<rparr>) [front] empty_store =
     (Inr \<lparr>message = ''Product created successfully'', product_id = ''RW0001''\<rparr>,
      snd (create_product py_json 7 (tee\<lparr>sizes := ''not json''\<rparr>) [front] empty_store))"
  using create_odd_reply by (simp add: prod_eq_iff)

lemma loads_not_json: "loads py_json ''not json'' = None"
  by code_simp

text \<open>
  C4, amended. Create does not validate \<open>sizes\<close> and \<open>colors\<close>. The answer of the
  handler does not depend on them, and when it succeeds it has stored both strings
  exactly as it received them, valid JSON or not. The route hands the \<open>sizes\<close> and
  \<open>colors\<close> of the form to the handler unchanged, except that an absent or empty
  field becomes the default \<open>"[]"\<close>, so what a request stores is never empty. A
  stored \<open>sizes\<close> or \<open>colors\<close> that is not empty and that \<open>json.loads\<close> rejects makes
  the later read of the product fail with \<open>JSONDecodeError\<close>, in the handler and at
  the route.
\<close>

theorem create_product_stores_verbatim:
  "fst (create_product json now (form\<lparr>sizes := x, colors := y\<rparr>) images s) =
     fst (create_product json now form images s) \<and>
   (create_product json now form images s = (Inr r, s') \<longrightarrow>
      (\<exists>row. rows s' = rows s @ [row] \<and> row_product_id row = product_id r \<and>
         row_sizes row = Some (sizes form) \<and> row_colors row = Some (colors form)) \<and>
      ((sizes form \<noteq> [] \<and> loads json (sizes form) = None) \<or>
       (colors form \<noteq> [] \<and> loads json (colors form) = None) \<longrightarrow>
         get_product json (product_id r) s' = Inl JSONDecodeError \<and>
         get_api_product json (product_id r) s' = Inl JSONDecodeError)) \<and>
   (bind_create f = Some (form, images) \<longrightarrow>
      sizes form = (case form_sizes f of None \<Rightarrow> ''[]'' | Some t \<Rightarrow> if t = [] then ''[]'' else t) \<and>
      colors form = (case form_colors f of None \<Rightarrow> ''[]'' | Some t \<Rightarrow> if t = [] then ''[]'' else t) \<and>
      sizes form \<noteq> [] \<and> colors form \<noteq> [])"
proof (intro conjI impI)
  show "fst (create_product json now (form\<lparr>sizes := x, colors := y\<rparr>) images s) =
     fst (create_product json now form images s)"
    by (rule create_product_reply_sizes)
next
  assume c: "create_product json now form images s = (Inr r, s')"
  from create_product_row [OF c]
  show "\<exists>row. rows s' = rows s @ [row] \<and> row_product_id row = product_id r \<and>
         row_sizes row = Some (sizes form) \<and> row_colors row = Some (colors form)" by blast
next
  assume c: "create_product json now form images s = (Inr r, s')"
    and bad: "(sizes form \<noteq> [] \<and> loads json (sizes form) = None) \<or>
       (colors form \<noteq> [] \<and> loads json (colors form) = None)"
  from create_product_row [OF c] obtain row where
    rw: "rows s' = rows s @ [row]" and pid: "row_product_id row = product_id r"
    and sz: "row_sizes row = Some (sizes form)" and cl: "row_colors row = Some (colors form)"
    by blast
  from create_product_Inr(1,2) [OF c] have "product_id r \<notin> row_product_id ` set (rows s)"
    by simp
  from select_one_new [OF rw pid this] have "select_one (product_id r) s' = Some row" .
  with sz cl bad show g: "get_product json (product_id r) s' = Inl JSONDecodeError"
    by (auto simp: get_product_def to_product_def decode_column_def split: option.splits)
  then show "get_api_product json (product_id r) s' = Inl JSONDecodeError"
    by (simp add: get_api_product_def)
next
  assume b: "bind_create f = Some (form, images)"
  show "sizes form = (case form_sizes f of None \<Rightarrow> ''[]'' | Some t \<Rightarrow> if t = [] then ''[]'' else t)"
    using bind_create_Some(1) [OF b] by (simp add: with_default_eq)
  show "colors form = (case form_colors f of None \<Rightarrow> ''[]'' | Some t \<Rightarrow> if t = [] then ''[]'' else t)"
    using bind_create_Some(2) [OF b] by (simp add: with_default_eq)
  show "sizes form \<noteq> []"
    using bind_create_Some(1) [OF b] by (simp add: with_default_not_empty)
  show "colors form \<noteq> []"
    using bind_create_Some(2) [OF b] by (simp add: with_default_not_empty)
qed

theorem create_product_stores_verbatim_witness:
  "bind_create odd_request = Some (tee\<lparr>sizes := ''not json''\<rparr>, [front]) \<and>
   create_product py_json 7 (tee\<lparr>sizes := ''not json''\<rparr>) [front] empty_store =
     (Inr \<lparr>message = ''Product created successfully'', product_id = ''RW0001''\<rparr>,
      snd (create_product py_json 7 (tee\<lparr>sizes := ''not json''\<rparr>) [front] empty_store)) \<and>
   loads py_json ''not json'' = None \<and>
   (\<exists>row. rows (snd (create_product py_json 7 (tee\<lparr>sizes := ''not json''\<rparr>) [front] empty_store)) =
        rows empty_store @ [row] \<and> row_sizes row = Some ''not json'') \<and>
   get_product py_json ''RW0001''
     (snd (create_product py_json 7 (tee\<lparr>sizes := ''not json''\<rparr>) [front] empty_store)) =
     Inl JSONDecodeError \<and>
   get_api_product py_json ''RW0001''
     (snd (create_product py_json 7 (tee\<lparr>sizes := ''not json''\<rparr>) [front] empty_store)) =
     Inl JSONDecodeError"
proof -
  let ?form = "tee\<lparr>sizes := ''not json''\<rparr>"
  let ?r = "\<lparr>message = ''Product created successfully'', product_id = ''RW0001''\<rparr>"
  let ?s' = "snd (create_product py_json 7 ?form [front] empty_store)"
  note c = create_product_stores_verbatim [where json = py_json and now = 7
      and form = ?form and images = "[front]" and s = empty_store and r = ?r and s' = ?s'
      and f = odd_request]
  have z: "sizes ?form = ''not json''" "product_id ?r = ''RW0001''" by simp_all
  from c create_odd have
    1: "\<exists>row. rows ?s' = rows empty_store @ [row] \<and> row_product_id row = product_id ?r \<and>
         row_sizes row = Some (sizes ?form) \<and> row_colors row = Some (colors ?form)"
    and 2: "(sizes ?form \<noteq> [] \<and> loads py_json (sizes ?form) = None) \<or>
       (colors ?form \<noteq> [] \<and> loads py_json (colors ?form) = None) \<longrightarrow>
         get_product py_json (product_id ?r) ?s' = Inl JSONDecodeError \<and>
         get_api_product py_json (product_id ?r) ?s' = Inl JSONDecodeError"
    by blast+
  from 2 loads_not_json have 3: "get_product py_json ''RW0001'' ?s' = Inl JSONDecodeError"
    "get_api_product py_json ''RW0001'' ?s' = Inl JSONDecodeError"
    unfolding z by simp_all
  from 1 have 4: "\<exists>row. rows ?s' = rows empty_store @ [row] \<and> row_sizes row = Some ''not json''"
    unfolding z by blast
  from bind_odd_request create_odd loads_not_json 3 4 show ?thesis by blast
qed

subsection \<open>The fields a creation requires\<close>

lemma verify_default: "verify_admin default_settings admin_credentials = Inr ''rimu_admin''"
  by code_simp

lemma bind_tee_request: "bind_create tee_request = None"
  by (simp add: bind_create_def tee_request_def form_text_def)

text \<open>
  C5 fails: the request that carries a name, a type and a price and nothing else is
  answered with a validation error, and nothing is stored.
\<close>

theorem create_tee_request_rejected:
  "post_api_admin_products default_settings py_json 7 (Some admin_credentials) tee_request
     empty_store = (Inl RequestValidationError, empty_store)"
  by (simp add: post_api_admin_products_def verify_default bind_tee_request)

lemma save_images_unnamed:
  "\<forall>u\<in>set images. \<not> named u \<Longrightarrow>
   save_images w pid idx images fs image_paths = (Inr image_paths, fs)"
  by (induction images arbitrary: idx)
    (auto simp: named_def truthy_def split: option.splits)

lemma bind_create_None:
  "form_text (form_category f) = None \<or> form_text (form_details f) = None \<or> form_images f = []
   \<Longrightarrow> bind_create f = None"
  by (auto simp: bind_create_def split: option.splits)

lemma dumps_empty: "dumps py_json (JList []) = ''[]''"
  by code_simp

lemma loads_empty: "loads py_json ''[]'' = Some (JList [])"
  by code_simp

text \<open>
  C5, amended. With the credentials of the administrator, a request in which the
  category or the details are absent or empty, or which has no image part, is
  answered with a validation error and changes nothing. A request with the name
  Tee, the type apparel, the price 19.99, a category and details that are not
  empty, no sizes, no colours, and image parts that all have an empty file name
  succeeds on an empty table, for a module that writes the empty list as \<open>[]\<close> and
  reads it back: the product is \<open>RW0001\<close>, no file is written, the stored images
  are \<open>[]\<close>, and the route of the read answers for \<open>RW0001\<close> with the price 19.99,
  the category and the empty list of images.
\<close>

theorem create_tee_without_images:
  "verify_admin cfg creds = Inr admin \<longrightarrow>
   (form_text (form_category f) = None \<or> form_text (form_details f) = None \<or>
    form_images f = [] \<longrightarrow>
      post_api_admin_products cfg json now (Some creds) f s = (Inl RequestValidationError, s)) \<and>
   (rows s = [] \<and> form_name f = Some ''Tee'' \<and> form_type f = Some ''apparel'' \<and>
    form_price f = Some (Finite (1999 / 100)) \<and>
    form_category f = Some c \<and> c \<noteq> [] \<and> form_details f = Some d \<and> d \<noteq> [] \<and>
    form_sizes f = None \<and> form_colors f = None \<and>
    form_images f \<noteq> [] \<and> (\<forall>u\<in>set (form_images f). \<not> named u) \<and>
    dumps json (JList []) = ''[]'' \<and> loads json ''[]'' = Some (JList []) \<longrightarrow>
      (\<exists>s' p. post_api_admin_products cfg json now (Some creds) f s =
           (Inr \<lparr>message = ''Product created successfully'', product_id = ''RW0001''\<rparr>, s') \<and>
         map row_images (rows s') = [Some ''[]''] \<and> files s' = files s \<and>
         get_api_product json ''RW0001'' s' = Inr p \<and>
         p_price p = Finite (1999 / 100) \<and> p_images p = JList [] \<and>
         p_category p = Some c))"
proof (intro impI conjI)
  assume v: "verify_admin cfg creds = Inr admin"
    and m: "form_text (form_category f) = None \<or> form_text (form_details f) = None \<or>
    form_images f = []"
  from bind_create_None [OF m] v
  show "post_api_admin_products cfg json now (Some creds) f s = (Inl RequestValidationError, s)"
    by (simp add: post_api_admin_products_def)
next
  assume v: "verify_admin cfg creds = Inr admin"
    and a: "rows s = [] \<and> form_name f = Some ''Tee'' \<and> form_type f = Some ''apparel'' \<and>
    form_price f = Some (Finite (1999 / 100)) \<and>
    form_category f = Some c \<and> c \<noteq> [] \<and> form_details f = Some d \<and> d \<noteq> [] \<and>
    form_sizes f = None \<and> form_colors f = None \<and>
    form_images f \<noteq> [] \<and> (\<forall>u\<in>set (form_images f). \<not> named u) \<and>
    dumps json (JList []) = ''[]'' \<and> loads json ''[]'' = Some (JList [])"
  define form where "form = \<lparr>name = ''Tee'', type = ''apparel'', category = c, details = d,
     price = Finite (1999 / 100), sizes = ''[]'', colors = ''[]''\<rparr>"
  define row where "row = \<lparr>row_id = Suc (seq s), row_product_id = ''RW0001'', row_name = ''Tee'',
     row_type = ''apparel'', row_category = Some c, row_details = Some d,
     row_price = Finite (1999 / 100), row_sizes = Some ''[]'', row_colors = Some ''[]'',
     row_images = Some ''[]'', row_created_at = now\<rparr>"
  define s' where "s' = s\<lparr>rows := [row], seq := Suc (seq s)\<rparr>"
  from a have b: "bind_create f = Some (form, form_images f)"
    by (simp add: bind_create_def form_text_def with_default_def form_def)
  from a have sv: "save_images (writable s) ''RW0001'' 0 (form_images f) (files s) [] =
      (Inr [], files s)"
    by (simp add: save_images_unnamed)
  from a sv have c: "create_product json now form (form_images f) s =
      (Inr \<lparr>message = ''Product created successfully'', product_id = ''RW0001''\<rparr>, s')"
    by (simp add: create_product_def generate_product_id_def format_04d_1 Let_def form_def
        row_def s'_def)
  from v b c have p: "post_api_admin_products cfg json now (Some creds) f s =
      (Inr \<lparr>message = ''Product created successfully'', product_id = ''RW0001''\<rparr>, s')"
    by (simp add: post_api_admin_products_def)
  have i: "map row_images (rows s') = [Some ''[]'']" by (simp add: s'_def row_def)
  have fl: "files s' = files s" by (simp add: s'_def)
  define p where "p = \<lparr>p_id = Suc (seq s), p_product_id = ''RW0001'', p_name = ''Tee'',
     p_type = ''apparel'', p_category = Some c, p_details = Some d,
     p_price = Finite (1999 / 100), p_sizes = JList [], p_colors = JList [],
     p_images = JList [], p_created_at = now\<rparr>"
  from a have "get_product json ''RW0001'' s' = Inr p"
    by (simp add: get_product_def select_one_def s'_def row_def to_product_def
        decode_column_def p_def)
  moreover have "compliant p"
    by (simp add: compliant_def is_finite_def p_def)
  ultimately have g: "get_api_product json ''RW0001'' s' = Inr p"
    by (simp add: get_api_product_def)
  have q: "p_price p = Finite (1999 / 100)" "p_images p = JList []" "p_category p = Some c"
    by (simp_all add: p_def)
  show "\<exists>s' p. post_api_admin_products cfg json now (Some creds) f s =
           (Inr \<lparr>message = ''Product created successfully'', product_id = ''RW0001''\<rparr>, s') \<and>
         map row_images (rows s') = [Some ''[]''] \<and> files s' = files s \<and>
         get_api_product json ''RW0001'' s' = Inr p \<and>
         p_price p = Finite (1999 / 100) \<and> p_images p = JList [] \<and>
         p_category p = Some c"
  proof (intro exI conjI)
    show "post_api_admin_products cfg json now (Some creds) f s =
           (Inr \<lparr>message = ''Product created successfully'', product_id = ''RW0001''\<rparr>, s')"
      by (fact p)
    show "map row_images (rows s') = [Some ''[]'']" by (fact i)
    show "files s' = files s" by (fact fl)
    show "get_api_product json ''RW0001'' s' = Inr p" by (fact g)
    show "p_price p = Finite (1999 / 100)" by (fact q(1))
    show "p_images p = JList []" by (fact q(2))
    show "p_category p = Some c" by (fact q(3))
  qed
qed

theorem create_tee_without_images_witness:
  "verify_admin default_settings admin_credentials = Inr ''rimu_admin'' \<and>
   post_api_admin_products default_settings py_json 7 (Some admin_credentials) tee_request
     empty_store = (Inl RequestValidationError, empty_store) \<and>
   (\<exists>s' p. post_api_admin_products default_settings py_json 7 (Some admin_credentials)
        tee_request_full empty_store =
           (Inr \<lparr>message = ''Product created successfully'', product_id = ''RW0001''\<rparr>, s') \<and>
         map row_images (rows s') = [Some ''[]''] \<and> files s' = files empty_store \<and>
         get_api_product py_json ''RW0001'' s' = Inr p \<and>
         p_price p = Finite (1999 / 100) \<and> p_images p = JList [] \<and>
         p_category p = Some ''tops'')"
proof -
  note t = create_tee_without_images [where cfg = default_settings and creds = admin_credentials
      and admin = "''rimu_admin''" and json = py_json and now = 7 and s = empty_store]
  have 1: "form_text (form_category tee_request) = None"
    by (simp add: tee_request_def form_text_def)
  have 2: "rows empty_store = [] \<and> form_name tee_request_full = Some ''Tee'' \<and>
    form_type tee_request_full = Some ''apparel'' \<and>
    form_price tee_request_full = Some (Finite (1999 / 100)) \<and>
    form_category tee_request_full = Some ''tops'' \<and> ''tops'' \<noteq> [] \<and>
    form_details tee_request_full = Some ''A tee'' \<and> ''A tee'' \<noteq> [] \<and>
    form_sizes tee_request_full = None \<and> form_colors tee_request_full = None \<and>
    form_images tee_request_full \<noteq> [] \<and> (\<forall>u\<in>set (form_images tee_request_full). \<not> named u) \<and>
    dumps py_json (JList []) = ''[]'' \<and> loads py_json ''[]'' = Some (JList [])"
    using dumps_empty loads_empty
    by (simp add: empty_store_def tee_request_full_def tee_request_def named_def truthy_def)
  from t [where f = tee_request] verify_default 1
  have a: "post_api_admin_products default_settings py_json 7 (Some admin_credentials) tee_request
     empty_store = (Inl RequestValidationError, empty_store)" by blast
  from t [where f = tee_request_full and c = "''tops''" and d = "''A tee''"] verify_default 2
  have b: "\<exists>s' p. post_api_admin_products default_settings py_json 7 (Some admin_credentials)
        tee_request_full empty_store =
           (Inr \<lparr>message = ''Product created successfully'', product_id = ''RW0001''\<rparr>, s') \<and>
         map row_images (rows s') = [Some ''[]''] \<and> files s' = files empty_store \<and>
         get_api_product py_json ''RW0001'' s' = Inr p \<and>
         p_price p = Finite (1999 / 100) \<and> p_images p = JList [] \<and>
         p_category p = Some ''tops''" by blast
  from verify_default a b show ?thesis by blast
qed

subsection \<open>Listing\<close>

lemma decode_column_Inr: "decode_column json col = Inr v \<longleftrightarrow> decoded json col v"
  by (auto simp: decode_column_def decoded_def split: option.splits)

lemma decode_column_ok: "(\<exists>v. decode_column json col = Inr v) \<longleftrightarrow> decodable json col"
  by (auto simp: decode_column_def decodable_def split: option.splits)

lemma decode_column_Inl: "decode_column json col = Inl e \<Longrightarrow> e = JSONDecodeError"
  by (auto simp: decode_column_def split: option.splits if_splits)

lemma to_product_shows: "to_product json r = Inr p \<Longrightarrow> shows_row json r p"
  by (auto simp: to_product_def shows_row_def decode_column_Inr [symmetric] split: sum.splits)

lemma to_product_ok: "(\<exists>p. to_product json r = Inr p) \<longleftrightarrow> decodable_row json r"
  unfolding decodable_row_def decode_column_ok [symmetric]
  by (auto simp: to_product_def split: sum.splits)

lemma to_product_Inl: "to_product json r = Inl e \<Longrightarrow> e = JSONDecodeError"
  by (auto simp: to_product_def split: sum.splits dest: decode_column_Inl)

lemma to_products_shows:
  "to_products json rs = Inr ps \<Longrightarrow> list_all2 (shows_row json) rs ps"
  by (induction rs arbitrary: ps) (auto split: sum.splits dest: to_product_shows)

lemma to_products_ok:
  "(\<exists>ps. to_products json rs = Inr ps) \<longleftrightarrow> (\<forall>r\<in>set rs. decodable_row json r)"
proof (induction rs)
  case Nil
  then show ?case by simp
next
  case (Cons r rs)
  show ?case
  proof (cases "to_product json r")
    case (Inl e)
    then have "\<not> decodable_row json r"
      using to_product_ok [of json r] by simp
    with Inl show ?thesis by simp
  next
    case (Inr p)
    then have "decodable_row json r"
      using to_product_ok [of json r] by blast
    with Inr Cons.IH show ?thesis by (auto split: sum.splits)
  qed
qed

lemma to_products_Inl: "to_products json rs = Inl e \<Longrightarrow> e = JSONDecodeError"
  by (induction rs) (auto split: sum.splits dest: to_product_Inl)

lemma mset_insert_desc: "mset (insert_desc r rs) = add_mset r (mset rs)"
  by (induction rs) auto

lemma mset_order_by: "mset (order_by_created_at_desc rs) = mset rs"
  by (induction rs) (simp_all add: order_by_created_at_desc_def mset_insert_desc)

lemma set_insert_desc: "set (insert_desc r rs) = insert r (set rs)"
  by (induction rs) auto

lemma sorted_insert_desc:
  "sorted_wrt (\<lambda>a b. row_created_at b \<le> row_created_at a) rs \<Longrightarrow>
   sorted_wrt (\<lambda>a b. row_created_at b \<le> row_created_at a) (insert_desc r rs)"
  by (induction rs) (auto simp: set_insert_desc)

lemma sorted_order_by:
  "sorted_wrt (\<lambda>a b. row_created_at b \<le> row_created_at a) (order_by_created_at_desc rs)"
  by (induction rs) (simp_all add: order_by_created_at_desc_def sorted_insert_desc)

lemma decode_column_compliant:
  "decode_column json col = Inr v \<Longrightarrow> compliant_column json col \<longleftrightarrow> json_compliant v"
  by (auto simp: decode_column_def compliant_column_def split: option.splits if_splits)

lemma to_product_compliant:
  assumes "to_product json r = Inr p"
  shows "compliant p \<longleftrightarrow>
     is_finite (row_price r) \<and> compliant_column json (row_sizes r) \<and>
     compliant_column json (row_colors r) \<and> compliant_column json (row_images r)"
proof -
  from assms obtain ss cs im where
    d: "decode_column json (row_sizes r) = Inr ss" "decode_column json (row_colors r) = Inr cs"
      "decode_column json (row_images r) = Inr im"
    and p: "p_sizes p = ss" "p_colors p = cs" "p_images p = im" "p_price p = row_price r"
    by (auto simp: to_product_def split: sum.splits)
  show ?thesis
    unfolding compliant_def p
      decode_column_compliant [OF d(1)] decode_column_compliant [OF d(2)]
      decode_column_compliant [OF d(3)] ..
qed

lemma to_product_listable:
  "(\<exists>p. to_product json r = Inr p \<and> compliant p) \<longleftrightarrow> listable json r"
proof
  assume "\<exists>p. to_product json r = Inr p \<and> compliant p"
  then obtain p where p: "to_product json r = Inr p" "compliant p" by blast
  from p(1) have "decodable_row json r" using to_product_ok [of json r] by blast
  with p(2) to_product_compliant [OF p(1)] show "listable json r"
    by (simp add: listable_def)
next
  assume l: "listable json r"
  then have "decodable_row json r" by (simp add: listable_def)
  then obtain p where p: "to_product json r = Inr p" using to_product_ok [of json r] by blast
  with l to_product_compliant [OF p] show "\<exists>p. to_product json r = Inr p \<and> compliant p"
    by (auto simp: listable_def)
qed

lemma to_products_listable:
  "(\<exists>ps. to_products json rs = Inr ps \<and> list_all compliant ps)
     \<longleftrightarrow> (\<forall>r\<in>set rs. listable json r)"
proof (induction rs)
  case Nil
  then show ?case by simp
next
  case (Cons r rs)
  have "(\<exists>ps. to_products json (r # rs) = Inr ps \<and> list_all compliant ps) \<longleftrightarrow>
      (\<exists>p. to_product json r = Inr p \<and> compliant p) \<and>
      (\<exists>ps. to_products json rs = Inr ps \<and> list_all compliant ps)"
    by (auto split: sum.splits)
  then show ?case
    unfolding Cons.IH to_product_listable by simp
qed

lemma listing:
  "(to_products json (order_by_created_at_desc rs0) = Inr ps \<longrightarrow>
      (\<exists>rs. mset rs = mset rs0 \<and>
         sorted_wrt (\<lambda>a b. row_created_at b \<le> row_created_at a) rs \<and>
         list_all2 (shows_row json) rs ps)) \<and>
   ((\<exists>ps. to_products json (order_by_created_at_desc rs0) = Inr ps)
      \<longleftrightarrow> (\<forall>r\<in>set rs0. decodable_row json r)) \<and>
   (to_products json (order_by_created_at_desc rs0) = Inl e \<longrightarrow> e = JSONDecodeError)"
proof (intro conjI impI)
  assume "to_products json (order_by_created_at_desc rs0) = Inr ps"
  from to_products_shows [OF this] mset_order_by [of rs0] sorted_order_by [of rs0]
  show "\<exists>rs. mset rs = mset rs0 \<and>
         sorted_wrt (\<lambda>a b. row_created_at b \<le> row_created_at a) rs \<and>
         list_all2 (shows_row json) rs ps" by blast
next
  have "set (order_by_created_at_desc rs0) = set rs0"
    using mset_order_by [of rs0] by (metis set_mset_mset)
  then show "(\<exists>ps. to_products json (order_by_created_at_desc rs0) = Inr ps)
      \<longleftrightarrow> (\<forall>r\<in>set rs0. decodable_row json r)"
    by (simp add: to_products_ok)
next
  assume "to_products json (order_by_created_at_desc rs0) = Inl e"
  then show "e = JSONDecodeError" by (rule to_products_Inl)
qed

lemma api_listing:
  assumes "get_products json tp s = to_products json (order_by_created_at_desc rs0)"
  shows "(get_api_products json tp s = Inr ps \<longrightarrow> get_products json tp s = Inr ps) \<and>
   ((\<exists>ps. get_api_products json tp s = Inr ps) \<longleftrightarrow> (\<forall>r\<in>set rs0. listable json r)) \<and>
   (get_api_products json tp s = Inl e \<longrightarrow> e = JSONDecodeError \<or> e = ValueError)"
proof (intro conjI impI)
  assume "get_api_products json tp s = Inr ps"
  then show "get_products json tp s = Inr ps"
    unfolding get_api_products_def by (auto split: sum.splits if_splits)
next
  have "set (order_by_created_at_desc rs0) = set rs0"
    using mset_order_by [of rs0] by (metis set_mset_mset)
  then have "(\<exists>ps. to_products json (order_by_created_at_desc rs0) = Inr ps \<and>
      list_all compliant ps) \<longleftrightarrow> (\<forall>r\<in>set rs0. listable json r)"
    by (simp add: to_products_listable)
  moreover have "(\<exists>ps. get_api_products json tp s = Inr ps) \<longleftrightarrow>
      (\<exists>ps. to_products json (order_by_created_at_desc rs0) = Inr ps \<and> list_all compliant ps)"
    unfolding get_api_products_def assms by (auto split: sum.splits if_splits)
  ultimately show "(\<exists>ps. get_api_products json tp s = Inr ps)
      \<longleftrightarrow> (\<forall>r\<in>set rs0. listable json r)" by simp
next
  assume "get_api_products json tp s = Inl e"
  then show "e = JSONDecodeError \<or> e = ValueError"
    unfolding get_api_products_def assms
    by (auto split: sum.splits if_splits dest: to_products_Inl)
qed

lemma shop_decodable: "\<forall>r\<in>set (rows shop). decodable_row py_json r"
  by code_simp

lemma shop_listable: "\<forall>r\<in>set (rows shop). listable py_json r"
  by code_simp

lemma shop_ids:
  "map_sum id (map p_product_id) (get_api_products py_json (Some []) shop) =
     Inr [''RW0002'', ''RW0001'', ''RW0000'']"
  by code_simp


lemma shop_types: "filter (\<lambda>r. row_type r = []) (rows shop) = []"
  by (simp add: shop_def tee_row_def)

text \<open>
  C10. A listing whose \<open>type\<close> parameter is the empty string is the listing without
  the parameter, for the handler and for the route. When the handler returns, it
  lists every row of the table once, whatever its type, newest first, each with
  its three array columns decoded; it returns exactly when the array columns of
  every row are decodable, and fails with \<open>JSONDecodeError\<close> otherwise. The route
  answers with what the handler returns; it answers exactly when, moreover, the
  price of every row is finite and no decoded column holds a float that is not,
  and fails with \<open>JSONDecodeError\<close> or \<open>ValueError\<close> otherwise. In the witness the table
  has three rows, none of the empty type, and all three are listed.
\<close>

theorem get_products_empty_type:
  "get_products json (Some []) s = get_products json None s \<and>
   get_api_products json (Some []) s = get_api_products json None s \<and>
   (get_products json (Some []) s = Inr ps \<longrightarrow>
      (\<exists>rs. mset rs = mset (rows s) \<and>
         sorted_wrt (\<lambda>a b. row_created_at b \<le> row_created_at a) rs \<and>
         list_all2 (shows_row json) rs ps)) \<and>
   ((\<exists>ps. get_products json (Some []) s = Inr ps)
      \<longleftrightarrow> (\<forall>r\<in>set (rows s). decodable_row json r)) \<and>
   (get_products json (Some []) s = Inl e \<longrightarrow> e = JSONDecodeError) \<and>
   (get_api_products json (Some []) s = Inr ps \<longrightarrow> get_products json (Some []) s = Inr ps) \<and>
   ((\<exists>ps. get_api_products json (Some []) s = Inr ps)
      \<longleftrightarrow> (\<forall>r\<in>set (rows s). listable json r)) \<and>
   (get_api_products json (Some []) s = Inl e' \<longrightarrow> e' = JSONDecodeError \<or> e' = ValueError)"
proof -
  have g: "get_products json (Some []) s = to_products json (order_by_created_at_desc (rows s))"
    by (simp add: get_products_def)
  have n: "get_products json (Some []) s = get_products json None s"
    by (simp add: get_products_def)
  then have a: "get_api_products json (Some []) s = get_api_products json None s"
    by (simp add: get_api_products_def)
  note l = listing [of json "rows s" ps e, folded g]
  note r = api_listing [OF g, of ps e']
  from n a l r show ?thesis by blast
qed

theorem get_products_empty_type_witness:
  "list_all (listable py_json) (rows shop) \<and>
   (\<exists>ps rs. get_api_products py_json (Some []) shop = Inr ps \<and>
      get_api_products py_json None shop = Inr ps \<and>
      get_products py_json (Some []) shop = Inr ps \<and>
      get_products py_json None shop = Inr ps \<and>
      map p_product_id ps = [''RW0002'', ''RW0001'', ''RW0000''] \<and>
      mset rs = mset (rows shop) \<and> list_all2 (shows_row py_json) rs ps) \<and>
   filter (\<lambda>r. row_type r = []) (rows shop) = []"
proof -
  note t = get_products_empty_type [of py_json shop]
  from t shop_listable obtain ps where a: "get_api_products py_json (Some []) shop = Inr ps"
    by blast
  from t [of ps] a have g: "get_products py_json (Some []) shop = Inr ps" by blast
  from t [of ps] g obtain rs where
    rs: "mset rs = mset (rows shop)" "list_all2 (shows_row py_json) rs ps"
    by blast
  from t [of ps] g have n: "get_products py_json None shop = Inr ps" by simp
  from t [of ps] a have an: "get_api_products py_json None shop = Inr ps" by simp
  from shop_ids a have i: "map p_product_id ps = [''RW0002'', ''RW0001'', ''RW0000'']"
    by simp
  have "\<exists>ps rs. get_api_products py_json (Some []) shop = Inr ps \<and>
      get_api_products py_json None shop = Inr ps \<and>
      get_products py_json (Some []) shop = Inr ps \<and>
      get_products py_json None shop = Inr ps \<and>
      map p_product_id ps = [''RW0002'', ''RW0001'', ''RW0000''] \<and>
      mset rs = mset (rows shop) \<and> list_all2 (shows_row py_json) rs ps"
    by (rule exI [of _ ps], rule exI [of _ rs]) (simp add: a an g n i rs)
  with shop_listable shop_types show ?thesis by (simp add: list_all_iff)
qed




subsection \<open>Delete\<close>

text \<open>
  A deletion for an identifier that no row has succeeds and changes nothing. A
  deletion of a row whose images decode to something iterable succeeds, removes
  the row, and leaves no file under a path of the list, whether the file was there
  or not, provided none of these paths is that of the database file.
\<close>

lemma try_remove_JStr: "try_remove fs (JStr p) = fs(lstrip_slash p := None)"
  by (auto simp: try_remove_def os_remove_def split: option.splits)

lemma try_remove_apply:
  "try_remove fs v q = (if \<exists>p. v = JStr p \<and> q = lstrip_slash p then None else fs q)"
proof (cases v)
  case (JStr p)
  then show ?thesis by (simp add: try_remove_JStr)
qed (simp_all add: try_remove_def)

lemma foldl_try_remove:
  "foldl try_remove fs xs q =
     (if \<exists>p. JStr p \<in> set xs \<and> q = lstrip_slash p then None else fs q)"
proof (induction xs arbitrary: fs)
  case Nil
  then show ?case by simp
next
  case (Cons v xs)
  have "foldl try_remove fs (v # xs) q = foldl try_remove (try_remove fs v) xs q" by simp
  also have "\<dots> = (if \<exists>p. JStr p \<in> set xs \<and> q = lstrip_slash p then None
      else try_remove fs v q)" by (rule Cons.IH)
  also have "\<dots> = (if \<exists>p. JStr p \<in> set (v # xs) \<and> q = lstrip_slash p then None else fs q)"
    unfolding try_remove_apply by auto
  finally show ?case .
qed

lemma select_one_filter:
  "select_one pid s = None \<Longrightarrow> filter (\<lambda>r. row_product_id r \<noteq> pid) (rows s) = rows s"
  by (auto simp: select_one_def find_None_iff filter_id_conv)

lemma delete_product_unknown:
  assumes "pid \<notin> row_product_id ` set (rows s)"
  shows "delete_product json pid s = (Inr ''Product deleted successfully'', s)"
proof -
  from assms have n: "select_one pid s = None" by (simp add: select_one_None)
  show ?thesis
    by (auto simp: delete_product_def n select_one_filter [OF n])
qed

lemma delete_product_known:
  assumes "select_one pid s = Some row" and "row_images row = Some images_text"
    and "loads json images_text = Some images" and "py_iter images = Some image_paths"
    and "\<forall>p. JStr p \<in> set image_paths \<longrightarrow> lstrip_slash p \<noteq> DATABASE_PATH"
  shows "\<exists>s'. delete_product json pid s = (Inr ''Product deleted successfully'', s') \<and>
     rows s' = filter (\<lambda>r. row_product_id r \<noteq> pid) (rows s) \<and>
     (\<forall>q. files s' q =
        (if \<exists>p. JStr p \<in> set image_paths \<and> q = lstrip_slash p then None else files s q))"
proof -
  have k: "foldl try_remove (files s) image_paths DATABASE_PATH = files s DATABASE_PATH"
    using assms(5) by (auto simp: foldl_try_remove)
  define s' where "s' = s\<lparr>files := foldl try_remove (files s) image_paths,
    rows := filter (\<lambda>r. row_product_id r \<noteq> pid) (rows s)\<rparr>"
  from assms(1-4) k have "delete_product json pid s = (Inr ''Product deleted successfully'', s')"
    by (auto simp: delete_product_def s'_def)
  moreover have "rows s' = filter (\<lambda>r. row_product_id r \<noteq> pid) (rows s)"
    by (simp add: s'_def)
  moreover have "\<forall>q. files s' q =
      (if \<exists>p. JStr p \<in> set image_paths \<and> q = lstrip_slash p then None else files s q)"
    by (simp add: s'_def foldl_try_remove)
  ultimately show ?thesis by blast
qed

text \<open>
  C7, at an input where the code departs from it. An update stores the list of
  images the caller declares, here the path of the database file. The deletion of
  that product removes the database file, the \<open>DELETE\<close> then raises, and the row
  stays. On the same store, the deletion for an unknown identifier succeeds, and so
  does the deletion of a product one of whose image files is missing.
\<close>

theorem delete_product_database_file:
  "fst (update_product py_json ''RW0001'' tee None database_image tee_store) =
     Inr \<lparr>message = ''Product updated successfully'', product_id = ''RW0001''\<rparr> \<and>
   map row_images (rows (snd (update_product py_json ''RW0001'' tee None database_image tee_store)))
     = [Some ''[\"/data/rimu_world.db\"]''] \<and>
   fst (delete_product py_json ''RW0001''
          (snd (update_product py_json ''RW0001'' tee None database_image tee_store))) =
     Inl OperationalError \<and>
   map row_product_id
     (rows (snd (delete_product py_json ''RW0001''
                   (snd (update_product py_json ''RW0001'' tee None database_image tee_store)))))
     = [''RW0001''] \<and>
   files (snd (delete_product py_json ''RW0001''
                 (snd (update_product py_json ''RW0001'' tee None database_image tee_store))))
     DATABASE_PATH = None \<and>
   files tee_store DATABASE_PATH = Some ''SQLite'' \<and>
   fst (delete_product py_json ''RW0009'' tee_store) = Inr ''Product deleted successfully'' \<and>
   fst (delete_product py_json ''RW0001''
          (snd (update_product py_json ''RW0001'' tee (Some [side]) keep tee_store))) =
     Inr ''Product deleted successfully''"
  by code_simp

end
